theory Spec2Isabelle
  imports Main "HOL-Library.Word"
begin

unbundle bit_operations_syntax

section \<open>Machine integers\<close>

text \<open>
  The C sources use the fixed-width types of \<^verbatim>\<open>stdint.h\<close>. They are modelled as
  words of the same width, so that \<open>+\<close> and \<open>-\<close> wrap around as the casts
  \<^verbatim>\<open>(uint8_t)(b + 2)\<close> do. The little-endian accessors (\<^verbatim>\<open>__le16_to_cpu\<close>,
  \<^verbatim>\<open>__le32_to_cpu\<close>) only fix the byte order of a field; a field of a report is
  modelled by the value it has after the conversion.
\<close>

type_synonym u8 = "8 word"
type_synonym u16 = "16 word"
type_synonym u32 = "32 word"
type_synonym u64 = "64 word"

section \<open>HTC Vive IMU (src/vive-imu.c)\<close>

subsection \<open>oldest\_sequence\_index (lines 16-24)\<close>

definition oldest_sequence_index :: "u8 \<Rightarrow> u8 \<Rightarrow> u8 \<Rightarrow> nat" where
  "oldest_sequence_index a b c =
     (if a = b + 2 then 1
      else if b = c + 2 then 2
      else 0)"

subsection \<open>Reports and state\<close>

text \<open>
  \<^verbatim>\<open>struct vive_imu_sample\<close>: three accelerometer and three gyroscope readings, the
  32-bit tick and the 8-bit sequence counter. The fields carry the prefix \<open>s_\<close>, since
  the fields of \<^verbatim>\<open>struct raw_imu_sample\<close> have the same names in the source.
\<close>

record vive_imu_sample =
  s_acc :: "u16 \<times> u16 \<times> u16"
  s_gyro :: "u16 \<times> u16 \<times> u16"
  s_time :: u32
  s_seq :: u8

text \<open>
  \<^verbatim>\<open>struct vive_imu_report\<close>: the array \<^verbatim>\<open>sample[3]\<close>, one field per slot.
  \<open>sample_at\<close> is the access \<^verbatim>\<open>report->sample + i\<close> for the indices 0, 1, 2 that
  the decoder computes.
\<close>

record vive_imu_report =
  sample0 :: vive_imu_sample
  sample1 :: vive_imu_sample
  sample2 :: vive_imu_sample

definition sample_at :: "vive_imu_report \<Rightarrow> nat \<Rightarrow> vive_imu_sample" where
  "sample_at report i =
     (if i = 0 then sample0 report
      else if i = 1 then sample1 report
      else sample2 report)"

text \<open>
  Modelled from the spec: the widths of \<^verbatim>\<open>imu->time\<close> and \<^verbatim>\<open>raw.time\<close>. The headers
  \<^verbatim>\<open>vive-imu.h\<close> and \<^verbatim>\<open>imu.h\<close> that declare \<^verbatim>\<open>struct vive_imu\<close> and
  \<^verbatim>\<open>struct raw_imu_sample\<close> are not among the sources; the spec calls the time base a
  64-bit counter, and the decoder adds \<^verbatim>\<open>0x100000000\<close> to it. The sequence counter is
  assigned to a \<^verbatim>\<open>uint8_t\<close> local and compared with the 8-bit counters of the samples.
\<close>

record vive_imu =
  sequence :: u8
  imu_time :: u64

record raw_imu_sample =
  raw_time :: u64
  raw_acc :: "u16 \<times> u16 \<times> u16"
  raw_gyro :: "u16 \<times> u16 \<times> u16"

subsection \<open>The time of a sample (lines 110-114)\<close>

text \<open>
  \<^verbatim>\<open>
  time = __le32_to_cpu(sample->time);
  raw.time = imu->time & ~0xffffffff;
  if (time < (imu->time & 0xffffffff))
          raw.time += 0x100000000;
  raw.time |= time;
  \<close>
  The constant \<^verbatim>\<open>0xffffffff\<close> does not fit an \<^verbatim>\<open>int\<close> of 32 bits, so its type is
  \<^verbatim>\<open>unsigned int\<close> (C11 6.4.4.1), and \<^verbatim>\<open>~0xffffffff\<close> is complemented at that width
  before the usual arithmetic conversions widen it, without sign, to the 64 bits of
  \<^verbatim>\<open>imu->time\<close>. The model keeps the widths as C has them: the complement is taken on a
  32-bit word and then zero-extended with \<open>ucast\<close>. The constant \<^verbatim>\<open>0x100000000\<close>
  has a 64-bit type, and the comparison is made at 64 bits.
\<close>

definition vive_imu_sample_time :: "u64 \<Rightarrow> u32 \<Rightarrow> u64" where
  "vive_imu_sample_time imu_t t =
     (let raw0 = imu_t AND ucast (NOT (0xffffffff :: u32));
          raw1 = (if ucast t < (imu_t AND ucast (0xffffffff :: u32))
                  then raw0 + 0x100000000 else raw0)
      in raw1 OR ucast t)"

subsection \<open>vive\_imu\_decode\_message (lines 71-119)\<close>

text \<open>
  The body of the loop for one slot (lines 94-117). The state is the \<^verbatim>\<open>struct vive_imu\<close>
  and the list of the samples handled so far, in the order in which the loop handled
  them: a sample is appended when the body runs to its end, that is when it is not
  skipped as already seen. Each entry pairs the sequence number with the
  \<^verbatim>\<open>raw_imu_sample\<close> built from the slot. \<open>last_seq\<close> is the local read once from
  \<^verbatim>\<open>imu->sequence\<close> before the loop.
\<close>

type_synonym imu_trace = "(u8 \<times> raw_imu_sample) list"

definition vive_imu_decode_sample ::
  "u8 \<Rightarrow> vive_imu_sample \<Rightarrow> vive_imu \<times> imu_trace \<Rightarrow> vive_imu \<times> imu_trace" where
  "vive_imu_decode_sample last_seq smp st =
     (let imu = fst st; out = snd st; seq = s_seq smp in
      if seq = last_seq \<or> seq = last_seq - 1 \<or> seq = last_seq - 2
      then (imu, out)
      else
        let raw = \<lparr>raw_time = vive_imu_sample_time (imu_time imu) (s_time smp),
                   raw_acc = s_acc smp, raw_gyro = s_gyro smp\<rparr>
        in (imu\<lparr>sequence := seq, imu_time := raw_time raw\<rparr>, out @ [(seq, raw)]))"

text \<open>
  \<^verbatim>\<open>for (j = 3; j; --j, i = (i + 1) % 3)\<close>: the first argument is \<open>j\<close>, the second
  \<open>i\<close>.
\<close>

fun vive_imu_decode_loop ::
  "nat \<Rightarrow> nat \<Rightarrow> u8 \<Rightarrow> vive_imu_report \<Rightarrow> vive_imu \<times> imu_trace \<Rightarrow> vive_imu \<times> imu_trace" where
  "vive_imu_decode_loop 0 i last_seq report st = st"
| "vive_imu_decode_loop (Suc j) i last_seq report st =
     vive_imu_decode_loop j ((i + 1) mod 3) last_seq report
       (vive_imu_decode_sample last_seq (sample_at report i) st)"

definition vive_imu_decode_message :: "vive_imu \<Rightarrow> vive_imu_report \<Rightarrow> vive_imu \<times> imu_trace" where
  "vive_imu_decode_message imu report =
     (let last_seq = sequence imu;
          i = oldest_sequence_index (s_seq (sample0 report)) (s_seq (sample1 report))
                (s_seq (sample2 report))
      in vive_imu_decode_loop (Suc (Suc (Suc 0))) i last_seq report (imu, []))"

subsection \<open>Vocabulary of the claims about the sequence counters\<close>

text \<open>
  The slots are written round-robin, so three consecutive counters \<open>n\<close>, \<open>n + 1\<close>,
  \<open>n + 2\<close> (mod 256) sit in the slots in one of three rotations, according to the slot
  that holds the oldest.
\<close>

definition rotation_of :: "u8 \<Rightarrow> u8 \<Rightarrow> u8 \<Rightarrow> u8 \<Rightarrow> bool" where
  "rotation_of n a b c \<longleftrightarrow>
     (a = n \<and> b = n + 1 \<and> c = n + 2) \<or>
     (a = n + 2 \<and> b = n \<and> c = n + 1) \<or>
     (a = n + 1 \<and> b = n + 2 \<and> c = n)"

text \<open>\<open>trails_by_two x y\<close>: the counter \<open>x\<close> is two behind the counter \<open>y\<close> (mod 256).\<close>

definition trails_by_two :: "u8 \<Rightarrow> u8 \<Rightarrow> bool" where
  "trails_by_two x y \<longleftrightarrow> y = x + 2"

definition some_slot_trails :: "u8 \<Rightarrow> u8 \<Rightarrow> u8 \<Rightarrow> bool" where
  "some_slot_trails a b c \<longleftrightarrow>
     trails_by_two a b \<or> trails_by_two a c \<or>
     trails_by_two b a \<or> trails_by_two b c \<or>
     trails_by_two c a \<or> trails_by_two c b"

text \<open>The duplicate-suppression window: the last delivered counter and its two predecessors.\<close>

definition already_seen :: "u8 \<Rightarrow> u8 \<Rightarrow> bool" where
  "already_seen last_seq s \<longleftrightarrow> s = last_seq \<or> s = last_seq - 1 \<or> s = last_seq - 2"

section \<open>The HID feature-report channel\<close>

text \<open>
  Modelled from the spec: \<^verbatim>\<open>hid_send_feature_report\<close> and \<^verbatim>\<open>hid_get_feature_report\<close>
  (\<^verbatim>\<open>hidraw.c\<close>, not among the sources), which the spec (6) treats as a request and
  response channel whose calls return a length or an error. A negative return value is
  an error, as every caller tests it. The device is the list of its replies to the
  calls still to come, one reply per call, and the channel records every request made,
  in order. A reply holds the return value of the call and, for a get, the fields of
  the report that the callers read. A call made when no reply is left does not return:
  its result is \<open>None\<close>. The types of the requests and of the replies are those of the
  module that uses the channel.
\<close>

record ('q, 'r) hid_channel =
  replies :: "'r list"
  requests :: "'q list"

definition hid_call :: "('q, 'r) hid_channel \<Rightarrow> 'q \<Rightarrow> ('r \<times> ('q, 'r) hid_channel) option" where
  "hid_call fd req =
     (case replies fd of
        [] \<Rightarrow> None
      | r # rs \<Rightarrow> Some (r, \<lparr>replies = rs, requests = requests fd @ [req]\<rparr>))"

text \<open>
  An input report arrives through \<^verbatim>\<open>read\<close> on the device node, into a buffer of 64
  bytes. \<open>rd_ret\<close> is the return value of \<^verbatim>\<open>read\<close>, \<open>rd_id\<close> is the first byte
  \<^verbatim>\<open>buf[0]\<close>, and \<open>rd_report\<close> is the buffer as the structure that the decoder lays
  over it.
\<close>

record 'r hid_read =
  rd_ret :: int
  rd_id :: u8
  rd_report :: 'r

section \<open>Oculus Rift CV1 radio (src/rift-radio.c)\<close>

subsection \<open>Constants of the headers\<close>

text \<open>
  The header \<^verbatim>\<open>rift-hid-reports.h\<close> is not among the sources. The macros that
  \<^verbatim>\<open>rift-radio.c\<close> takes from it are the fields of a record that every function of this
  section receives as its first argument \<open>K\<close>: no property below rests on their values.
  \<^verbatim>\<open>EIO\<close> and \<^verbatim>\<open>EINVAL\<close> are those of Linux's \<^verbatim>\<open>errno.h\<close>.
\<close>

record rift_hid_consts =
  RIFT_RADIO_CONTROL_REPORT_ID :: u8
  RIFT_RADIO_DATA_REPORT_ID :: u8
  RIFT_RADIO_SERIAL_NUMBER_CONTROL :: u8
  RIFT_RADIO_FIRMWARE_VERSION_CONTROL :: u8
  RIFT_RADIO_MESSAGE_ID :: u8
  RIFT_REMOTE :: u8
  RIFT_TOUCH_CONTROLLER_LEFT :: u8
  RIFT_TOUCH_CONTROLLER_RIGHT :: u8
  RIFT_TOUCH_CONTROLLER_ADC_A_X :: u8
  RIFT_TOUCH_CONTROLLER_ADC_B_Y :: u8
  RIFT_TOUCH_CONTROLLER_ADC_REST :: u8
  RIFT_TOUCH_CONTROLLER_ADC_STICK :: u8
  RIFT_TOUCH_CONTROLLER_ADC_TRIGGER :: u8

definition EIO :: int where "EIO = 5"
definition EINVAL :: int where "EINVAL = 22"

subsection \<open>Requests and replies of the radio\<close>

text \<open>
  The requests that \<^verbatim>\<open>rift-radio.c\<close> makes: a radio control report sent with its three
  bytes \<^verbatim>\<open>unknown[0..2]\<close>, a radio control report read back, and a radio data report
  read. A reply holds the return value and the fields that the callers read:
  \<^verbatim>\<open>unknown[0]\<close> of a radio control report, and \<^verbatim>\<open>serial.number\<close>, \<^verbatim>\<open>firmware.date\<close> and
  \<^verbatim>\<open>firmware.version\<close> of a radio data report.
\<close>

datatype radio_request =
  Send_radio_control u8 u8 u8
  | Get_radio_control
  | Get_radio_data

record radio_reply =
  reply_ret :: int
  reply_unknown0 :: u8
  reply_number :: "u8 list"
  reply_date :: "u8 list"
  reply_version :: "u8 list"

type_synonym radio_channel = "(radio_request, radio_reply) hid_channel"

subsection \<open>rift\_radio\_transfer (lines 24-46)\<close>

text \<open>
  The loop \<^verbatim>\<open>do { ret = hid_get_feature_report(...); if (ret < 0) return ret; }
  while (report.unknown[0] & 0x80);\<close> takes one reply per round, so it is a recursion
  over the replies; the second argument is the list of requests made so far.
\<close>

fun rift_radio_transfer_wait :: "radio_reply list \<Rightarrow> radio_request list \<Rightarrow> (int \<times> radio_channel) option" where
  "rift_radio_transfer_wait [] reqs = None"
| "rift_radio_transfer_wait (r # rs) reqs =
     (if reply_ret r < 0
      then Some (reply_ret r, \<lparr>replies = rs, requests = reqs @ [Get_radio_control]\<rparr>)
      else if reply_unknown0 r AND 0x80 \<noteq> 0
      then rift_radio_transfer_wait rs (reqs @ [Get_radio_control])
      else Some (if reply_unknown0 r AND 0x08 \<noteq> 0 then - EIO else 0,
                 \<lparr>replies = rs, requests = reqs @ [Get_radio_control]\<rparr>))"

definition rift_radio_transfer :: "radio_channel \<Rightarrow> u8 \<Rightarrow> u8 \<Rightarrow> u8 \<Rightarrow> (int \<times> radio_channel) option" where
  "rift_radio_transfer fd a b c =
     (case hid_call fd (Send_radio_control a b c) of
        None \<Rightarrow> None
      | Some (r, fd1) \<Rightarrow>
          if reply_ret r < 0 then Some (reply_ret r, fd1)
          else rift_radio_transfer_wait (replies fd1) (requests fd1))"

subsection \<open>rift\_radio\_read (lines 48-61)\<close>

text \<open>
  The result is the return value, the data report after the call and the channel. The
  test \<^verbatim>\<open>report->id != RIFT_RADIO_DATA_REPORT_ID\<close> is on the argument \<open>report_id\<close>.
  When the transfer fails the report is not read: the model returns \<open>None\<close> for it.
\<close>

definition rift_radio_read ::
  "rift_hid_consts \<Rightarrow> radio_channel \<Rightarrow> u8 \<Rightarrow> u8 \<Rightarrow> u8 \<Rightarrow> u8 \<Rightarrow>
     (int \<times> radio_reply option \<times> radio_channel) option" where
  "rift_radio_read K fd a b c report_id =
     (if report_id \<noteq> RIFT_RADIO_DATA_REPORT_ID K then Some (- EINVAL, None, fd)
      else
        case rift_radio_transfer fd a b c of
          None \<Rightarrow> None
        | Some (ret, fd1) \<Rightarrow>
            if ret < 0 then Some (ret, None, fd1)
            else
              case hid_call fd1 Get_radio_data of
                None \<Rightarrow> None
              | Some (r, fd2) \<Rightarrow> Some (reply_ret r, Some r, fd2))"

subsection \<open>Sub-devices of the radio\<close>

text \<open>
  \<^verbatim>\<open>struct rift_wireless_device\<close>, \<^verbatim>\<open>struct rift_remote\<close>,
  \<^verbatim>\<open>struct rift_touch_controller\<close> and \<^verbatim>\<open>struct rift_radio\<close> (declared in
  \<^verbatim>\<open>rift-radio.h\<close>, not among the sources) with the fields that \<^verbatim>\<open>rift-radio.c\<close> reads
  or writes. The character arrays are lists of bytes. The capacitive-sense fields are
  assigned the \<^verbatim>\<open>uint16_t\<close> value \<^verbatim>\<open>adc_value\<close> and hold it as such. The array
  \<^verbatim>\<open>touch[2]\<close> is the pair of fields \<open>touch0\<close> and \<open>touch1\<close>.
\<close>

record rift_wireless_device =
  dev_name :: string
  dev_id :: u8
  active :: bool
  serial :: "u8 list"
  firmware_date :: "u8 list"
  firmware_version :: "u8 list"

record rift_remote =
  remote_base :: rift_wireless_device
  remote_buttons :: u16

record rift_touch_controller =
  touch_base :: rift_wireless_device
  cap_a_x :: u16
  cap_b_y :: u16
  cap_rest :: u16
  cap_stick :: u16
  cap_trigger :: u16

record rift_radio =
  remote :: rift_remote
  touch0 :: rift_touch_controller
  touch1 :: rift_touch_controller

text \<open>
  \<^verbatim>\<open>struct rift_radio_message\<close>: the identifier, the device type, and the fields of the
  payload that the decoders use. In the source the payloads of the remote and of the
  touch controllers are the members of a union; each decoder reads its own member only.
\<close>

record rift_radio_message =
  message_id :: u8
  device_type :: u8
  message_remote_buttons :: u16
  touch_adc_channel :: u8
  touch_adc_value :: u16

subsection \<open>rift\_radio\_get\_serial and rift\_radio\_get\_firmware\_version (lines 84-125)\<close>

text \<open>
  \<^verbatim>\<open>for (i = 0; i < n && p(src[i]); i++) dst[i] = src[i];\<close> overwrites a prefix of the
  destination and leaves the rest of it as it was.
\<close>

fun copy_while :: "(u8 \<Rightarrow> bool) \<Rightarrow> nat \<Rightarrow> u8 list \<Rightarrow> u8 list \<Rightarrow> u8 list" where
  "copy_while p 0 src dst = dst"
| "copy_while p (Suc n) [] dst = dst"
| "copy_while p (Suc n) (x # src) dst =
     (if p x then x # copy_while p n src (tl dst) else dst)"

text \<open>GLib's \<^verbatim>\<open>g_ascii_isalnum\<close> and \<^verbatim>\<open>g_ascii_isprint\<close> on a byte.\<close>

definition g_ascii_isalnum :: "u8 \<Rightarrow> bool" where
  "g_ascii_isalnum c \<longleftrightarrow>
     (0x30 \<le> c \<and> c \<le> 0x39) \<or> (0x41 \<le> c \<and> c \<le> 0x5a) \<or> (0x61 \<le> c \<and> c \<le> 0x7a)"

definition g_ascii_isprint :: "u8 \<Rightarrow> bool" where
  "g_ascii_isprint c \<longleftrightarrow> 0x20 \<le> c \<and> c \<le> 0x7e"

definition rift_radio_get_serial ::
  "rift_hid_consts \<Rightarrow> radio_channel \<Rightarrow> u8 \<Rightarrow> u8 list \<Rightarrow> (int \<times> u8 list \<times> radio_channel) option" where
  "rift_radio_get_serial K fd dev_type ser =
     (case rift_radio_read K fd 0x03 (RIFT_RADIO_SERIAL_NUMBER_CONTROL K) dev_type
             (RIFT_RADIO_DATA_REPORT_ID K) of
        None \<Rightarrow> None
      | Some (ret, report, fd1) \<Rightarrow>
          if ret < 0 then Some (ret, ser, fd1)
          else
            case report of
              None \<Rightarrow> Some (0, ser, fd1)
            | Some r \<Rightarrow> Some (0, copy_while g_ascii_isalnum 14 (reply_number r) ser, fd1))"

definition rift_radio_get_firmware_version ::
  "rift_hid_consts \<Rightarrow> radio_channel \<Rightarrow> u8 \<Rightarrow> u8 list \<Rightarrow> u8 list \<Rightarrow>
     (int \<times> u8 list \<times> u8 list \<times> radio_channel) option" where
  "rift_radio_get_firmware_version K fd dev_type fw_date fw_version =
     (case rift_radio_read K fd 0x03 (RIFT_RADIO_FIRMWARE_VERSION_CONTROL K) dev_type
             (RIFT_RADIO_DATA_REPORT_ID K) of
        None \<Rightarrow> None
      | Some (ret, report, fd1) \<Rightarrow>
          if ret < 0 then Some (ret, fw_date, fw_version, fd1)
          else
            case report of
              None \<Rightarrow> Some (0, fw_date, fw_version, fd1)
            | Some r \<Rightarrow>
                Some (0, copy_while g_ascii_isprint 11 (reply_date r) fw_date,
                      copy_while g_ascii_isalnum 10 (reply_version r) fw_version, fd1))"

subsection \<open>rift\_decode\_remote\_message (lines 127-134)\<close>

definition rift_decode_remote_message :: "rift_remote \<Rightarrow> rift_radio_message \<Rightarrow> rift_remote" where
  "rift_decode_remote_message rem message =
     (let buttons = message_remote_buttons message in
      if remote_buttons rem \<noteq> buttons then rem\<lparr>remote_buttons := buttons\<rparr> else rem)"

subsection \<open>rift\_decode\_touch\_message (lines 136-181)\<close>

text \<open>
  The locals \<^verbatim>\<open>accel\<close>, \<^verbatim>\<open>gyro\<close>, \<^verbatim>\<open>trigger\<close>, \<^verbatim>\<open>grip\<close> and \<^verbatim>\<open>stick\<close> are computed from
  the message and cast to \<^verbatim>\<open>void\<close>; the effect of the function is that of its
  \<^verbatim>\<open>switch\<close> on \<^verbatim>\<open>message->touch.adc_channel\<close>, whose cases are tried in the order of
  the source.
\<close>

definition rift_decode_touch_message ::
  "rift_hid_consts \<Rightarrow> rift_touch_controller \<Rightarrow> rift_radio_message \<Rightarrow> rift_touch_controller" where
  "rift_decode_touch_message K touch message =
     (let adc_value = touch_adc_value message; ch = touch_adc_channel message in
      if ch = RIFT_TOUCH_CONTROLLER_ADC_A_X K then touch\<lparr>cap_a_x := adc_value\<rparr>
      else if ch = RIFT_TOUCH_CONTROLLER_ADC_B_Y K then touch\<lparr>cap_b_y := adc_value\<rparr>
      else if ch = RIFT_TOUCH_CONTROLLER_ADC_REST K then touch\<lparr>cap_rest := adc_value\<rparr>
      else if ch = RIFT_TOUCH_CONTROLLER_ADC_STICK K then touch\<lparr>cap_stick := adc_value\<rparr>
      else if ch = RIFT_TOUCH_CONTROLLER_ADC_TRIGGER K then touch\<lparr>cap_trigger := adc_value\<rparr>
      else touch)"

subsection \<open>rift\_radio\_activate (lines 183-208)\<close>

text \<open>The result is the return value, the device and the channel.\<close>

definition rift_radio_activate ::
  "rift_hid_consts \<Rightarrow> rift_wireless_device \<Rightarrow> radio_channel \<Rightarrow>
     (int \<times> rift_wireless_device \<times> radio_channel) option" where
  "rift_radio_activate K dev fd =
     (case rift_radio_get_serial K fd (dev_id dev) (serial dev) of
        None \<Rightarrow> None
      | Some (ret, ser, fd1) \<Rightarrow>
          if ret < 0 then Some (ret, dev\<lparr>serial := ser\<rparr>, fd1)
          else
            case rift_radio_get_firmware_version K fd1 (dev_id dev) (firmware_date dev)
                   (firmware_version dev) of
              None \<Rightarrow> None
            | Some (ret2, fw_date, fw_version, fd2) \<Rightarrow>
                if ret2 < 0
                then Some (ret2, dev\<lparr>serial := ser, firmware_date := fw_date,
                                       firmware_version := fw_version\<rparr>, fd2)
                else Some (0, dev\<lparr>serial := ser, firmware_date := fw_date,
                                   firmware_version := fw_version, active := True\<rparr>, fd2))"

subsection \<open>rift\_decode\_radio\_message (lines 210-241)\<close>

text \<open>
  The result is the radio and the channel. The return value of \<^verbatim>\<open>rift_radio_activate\<close>
  is not looked at. The branches for an unknown device type and for a message with
  another identifier print and change nothing.
\<close>

definition touch_activate_decode ::
  "rift_hid_consts \<Rightarrow> rift_touch_controller \<Rightarrow> radio_channel \<Rightarrow> rift_radio_message \<Rightarrow>
     (rift_touch_controller \<times> radio_channel) option" where
  "touch_activate_decode K touch fd message =
     (if \<not> active (touch_base touch)
      then
        case rift_radio_activate K (touch_base touch) fd of
          None \<Rightarrow> None
        | Some (ret, dev, fd1) \<Rightarrow>
            Some (rift_decode_touch_message K (touch\<lparr>touch_base := dev\<rparr>) message, fd1)
      else Some (rift_decode_touch_message K touch message, fd))"

definition rift_decode_radio_message ::
  "rift_hid_consts \<Rightarrow> rift_radio \<Rightarrow> radio_channel \<Rightarrow> rift_radio_message \<Rightarrow>
     (rift_radio \<times> radio_channel) option" where
  "rift_decode_radio_message K radio fd message =
     (if message_id message = RIFT_RADIO_MESSAGE_ID K then
        if device_type message = RIFT_REMOTE K then
          Some (radio\<lparr>remote := rift_decode_remote_message (remote radio) message\<rparr>, fd)
        else if device_type message = RIFT_TOUCH_CONTROLLER_LEFT K then
          case touch_activate_decode K (touch0 radio) fd message of
            None \<Rightarrow> None
          | Some (t, fd1) \<Rightarrow> Some (radio\<lparr>touch0 := t\<rparr>, fd1)
        else if device_type message = RIFT_TOUCH_CONTROLLER_RIGHT K then
          case touch_activate_decode K (touch1 radio) fd message of
            None \<Rightarrow> None
          | Some (t, fd1) \<Rightarrow> Some (radio\<lparr>touch1 := t\<rparr>, fd1)
        else Some (radio, fd)
      else Some (radio, fd))"

subsection \<open>rift\_radio\_init (lines 243-251)\<close>

definition rift_radio_init :: "rift_hid_consts \<Rightarrow> rift_radio \<Rightarrow> rift_radio" where
  "rift_radio_init K radio =
     radio\<lparr>remote := (remote radio)\<lparr>remote_base :=
              (remote_base (remote radio))\<lparr>dev_name := ''Remote'', dev_id := RIFT_REMOTE K\<rparr>\<rparr>,
           touch0 := (touch0 radio)\<lparr>touch_base :=
              (touch_base (touch0 radio))\<lparr>dev_name := ''Left Touch Controller'',
                 dev_id := RIFT_TOUCH_CONTROLLER_LEFT K\<rparr>\<rparr>,
           touch1 := (touch1 radio)\<lparr>touch_base :=
              (touch_base (touch1 radio))\<lparr>dev_name := ''Right Touch Controller'',
                 dev_id := RIFT_TOUCH_CONTROLLER_RIGHT K\<rparr>\<rparr>\<rparr>"

subsection \<open>Vocabulary of the claims about the touch controller\<close>

text \<open>
  The five capacitive-sense fields in the order of the \<^verbatim>\<open>switch\<close>, the five channel
  constants in the same order, and the number of positions at which two lists differ.
\<close>

definition cap_fields :: "rift_touch_controller \<Rightarrow> u16 list" where
  "cap_fields t = [cap_a_x t, cap_b_y t, cap_rest t, cap_stick t, cap_trigger t]"

definition adc_channels :: "rift_hid_consts \<Rightarrow> u8 list" where
  "adc_channels K =
     [RIFT_TOUCH_CONTROLLER_ADC_A_X K, RIFT_TOUCH_CONTROLLER_ADC_B_Y K,
      RIFT_TOUCH_CONTROLLER_ADC_REST K, RIFT_TOUCH_CONTROLLER_ADC_STICK K,
      RIFT_TOUCH_CONTROLLER_ADC_TRIGGER K]"

definition changed_fields :: "'a list \<Rightarrow> 'a list \<Rightarrow> nat" where
  "changed_fields xs ys = length (filter (\<lambda>p. fst p \<noteq> snd p) (zip xs ys))"

section \<open>HTC Vive controller over USB (src/vive-controller-usb.c)\<close>

subsection \<open>Buttons\<close>

text \<open>
  The logical buttons of \<^verbatim>\<open>buttons.h\<close> that the button map names, and the events that
  \<^verbatim>\<open>ouvrt_handle_buttons\<close> reports.
\<close>

datatype ouvrt_button =
  OUVRT_BUTTON_TRIGGER
  | OUVRT_BUTTON_GRIP
  | OUVRT_BUTTON_MENU
  | OUVRT_BUTTON_SYSTEM
  | OUVRT_BUTTON_THUMB
  | OUVRT_TOUCH_THUMB

datatype button_event = Press ouvrt_button | Release ouvrt_button

text \<open>
  The bit masks \<^verbatim>\<open>VIVE_CONTROLLER_USB_BUTTON_*\<close> and the report identifiers come from
  \<^verbatim>\<open>vive-hid-reports.h\<close>, which is not among the sources; they are the fields of a
  record passed to the functions that use them.
\<close>

record vive_hid_consts =
  VIVE_IMU_REPORT_ID :: u8
  VIVE_CONTROLLER_LIGHTHOUSE_PULSE_REPORT_ID :: u8
  VIVE_CONTROLLER_BUTTON_REPORT_ID :: u8
  VIVE_CONTROLLER_USB_BUTTON_TRIGGER :: u32
  VIVE_CONTROLLER_USB_BUTTON_GRIP :: u32
  VIVE_CONTROLLER_USB_BUTTON_MENU :: u32
  VIVE_CONTROLLER_USB_BUTTON_SYSTEM :: u32
  VIVE_CONTROLLER_USB_BUTTON_THUMB :: u32
  VIVE_CONTROLLER_USB_BUTTON_TOUCH :: u32

text \<open>\<^verbatim>\<open>vive_controller_usb_button_map\<close> (lines 146-153).\<close>

definition vive_controller_usb_button_map :: "vive_hid_consts \<Rightarrow> (u32 \<times> ouvrt_button) list" where
  "vive_controller_usb_button_map V =
     [(VIVE_CONTROLLER_USB_BUTTON_TRIGGER V, OUVRT_BUTTON_TRIGGER),
      (VIVE_CONTROLLER_USB_BUTTON_GRIP V, OUVRT_BUTTON_GRIP),
      (VIVE_CONTROLLER_USB_BUTTON_MENU V, OUVRT_BUTTON_MENU),
      (VIVE_CONTROLLER_USB_BUTTON_SYSTEM V, OUVRT_BUTTON_SYSTEM),
      (VIVE_CONTROLLER_USB_BUTTON_THUMB V, OUVRT_BUTTON_THUMB),
      (VIVE_CONTROLLER_USB_BUTTON_TOUCH V, OUVRT_TOUCH_THUMB)]"

text \<open>
  Modelled from the spec: \<^verbatim>\<open>ouvrt_handle_buttons\<close> is defined in \<^verbatim>\<open>buttons.c\<close>, which is
  not among the sources. The spec (4.6): the input is the new bitmask, the previous
  bitmask and a static ordered list of (bit, logical-button) mappings; the output is,
  for each mapping whose bit differs between old and new, a press or release event in
  mapping-list order. An event is a press when the bit is set in the new bitmask.
\<close>

fun ouvrt_handle_buttons :: "u32 \<Rightarrow> u32 \<Rightarrow> (u32 \<times> ouvrt_button) list \<Rightarrow> button_event list" where
  "ouvrt_handle_buttons buttons last_buttons [] = []"
| "ouvrt_handle_buttons buttons last_buttons ((msk, b) # bmap) =
     (if buttons AND msk \<noteq> last_buttons AND msk
      then (if buttons AND msk \<noteq> 0 then Press b else Release b) #
             ouvrt_handle_buttons buttons last_buttons bmap
      else ouvrt_handle_buttons buttons last_buttons bmap)"

text \<open>
  \<^verbatim>\<open>struct vive_controller_button_report\<close> with the two fields that the decoder reads,
  and the fields of \<^verbatim>\<open>struct _OuvrtViveControllerUSB\<close> (lines 29-36) that the decoders
  change.
\<close>

record vive_controller_button_report =
  battery :: u8
  report_buttons :: u32

record vive_controller_usb =
  imu :: vive_imu
  buttons :: u32

subsection \<open>vive\_controller\_decode\_button\_message (lines 155-171)\<close>

text \<open>The result is the device and the events that \<^verbatim>\<open>ouvrt_handle_buttons\<close> reports.\<close>

definition vive_controller_decode_button_message ::
  "vive_hid_consts \<Rightarrow> vive_controller_usb \<Rightarrow> vive_controller_button_report \<Rightarrow>
     vive_controller_usb \<times> button_event list" where
  "vive_controller_decode_button_message V self report =
     (let btns = report_buttons report in
      if battery report \<noteq> 0 \<and> report_buttons report = 0 then (self, [])
      else if btns \<noteq> buttons self
      then (self\<lparr>buttons := btns\<rparr>,
            ouvrt_handle_buttons btns (buttons self) (vive_controller_usb_button_map V))
      else (self, []))"

subsection \<open>The reads of vive\_controller\_usb\_thread (lines 246-259 and 274-287)\<close>

text \<open>
  Two of the three blocks of the loop body that read a report and dispatch it: the block
  for the IMU interface and the block for the button interface. Each result is the
  device and what the decoder handed on. A failed \<^verbatim>\<open>read\<close> and a report of another
  length or identifier print a line and decode nothing.
\<close>

definition vive_controller_usb_read_imu ::
  "vive_hid_consts \<Rightarrow> vive_controller_usb \<Rightarrow> vive_imu_report hid_read \<Rightarrow>
     vive_controller_usb \<times> imu_trace" where
  "vive_controller_usb_read_imu V self rd =
     (if rd_ret rd = - 1 then (self, [])
      else if rd_ret rd = 52 \<and> rd_id rd = VIVE_IMU_REPORT_ID V
      then (self\<lparr>imu := fst (vive_imu_decode_message (imu self) (rd_report rd))\<rparr>,
            snd (vive_imu_decode_message (imu self) (rd_report rd)))
      else (self, []))"

definition vive_controller_usb_read_buttons ::
  "vive_hid_consts \<Rightarrow> vive_controller_usb \<Rightarrow> vive_controller_button_report hid_read \<Rightarrow>
     vive_controller_usb \<times> button_event list" where
  "vive_controller_usb_read_buttons V self rd =
     (if rd_ret rd = - 1 then (self, [])
      else if rd_ret rd = 64 \<and> rd_id rd = VIVE_CONTROLLER_BUTTON_REPORT_ID V
      then vive_controller_decode_button_message V self (rd_report rd)
      else (self, []))"

subsection \<open>Vocabulary of the claims about the buttons\<close>

text \<open>
  A mapping's bit differs between the new and the old bitmask; the mapping at position
  \<open>k\<close> is the only one whose bit differs; and the event of a mapping whose bit differs.
\<close>

definition mapped_bit_differs :: "u32 \<Rightarrow> u32 \<Rightarrow> u32 \<times> ouvrt_button \<Rightarrow> bool" where
  "mapped_bit_differs new old m \<longleftrightarrow> new AND fst m \<noteq> old AND fst m"

definition only_differs_at :: "u32 \<Rightarrow> u32 \<Rightarrow> (u32 \<times> ouvrt_button) list \<Rightarrow> nat \<Rightarrow> bool" where
  "only_differs_at new old bmap k \<longleftrightarrow>
     k < length bmap \<and>
     (\<forall>j < length bmap. mapped_bit_differs new old (bmap ! j) \<longleftrightarrow> j = k)"

definition edge_event :: "u32 \<Rightarrow> u32 \<times> ouvrt_button \<Rightarrow> button_event" where
  "edge_event new m = (if new AND fst m \<noteq> 0 then Press (snd m) else Release (snd m))"

section \<open>Oculus Rift HMD (src/rift.c)\<close>

subsection \<open>Requests and replies of the headset\<close>

text \<open>
  The feature reports that \<^verbatim>\<open>rift.c\<close> exchanges with the headset. A request names the
  report and, for a report that is sent, the fields that the function sets. A reply
  holds the return value and, for a report that is read, the fields that the callers
  read after the byte-order conversion: \<^verbatim>\<open>sample_rate\<close> and \<^verbatim>\<open>packet_interval\<close> of the
  configuration report; \<^verbatim>\<open>num\<close>, \<^verbatim>\<open>index\<close>, \<^verbatim>\<open>type\<close>, \<^verbatim>\<open>pos\<close> and \<^verbatim>\<open>dir\<close> of the
  position report; \<^verbatim>\<open>num\<close>, \<^verbatim>\<open>index\<close>, \<^verbatim>\<open>pattern_length\<close> and \<^verbatim>\<open>pattern\<close> of the LED
  pattern report. The fields of the display report that \<^verbatim>\<open>rift_send_display\<close> reads
  only shape the report that it sends back; they are left out.
\<close>

datatype rift_request =
  Get_config
  | Send_config u8
  | Get_position
  | Get_led_pattern
  | Send_keepalive
  | Send_tracking bool
  | Get_display
  | Send_display bool bool

record rift_reply =
  rp_ret :: int
  rp_sample_rate :: u16
  rp_packet_interval :: u8
  rp_num :: u16
  rp_index :: u16
  rp_type :: u16
  rp_pos :: "u32 \<times> u32 \<times> u32"
  rp_dir :: "u16 \<times> u16 \<times> u16"
  rp_pattern_length :: u8
  rp_pattern :: u32

type_synonym rift_channel = "(rift_request, rift_reply) hid_channel"

subsection \<open>The headset\<close>

text \<open>
  \<^verbatim>\<open>struct _OuvrtRiftPrivate\<close> (lines 30-35), and the fields of \<^verbatim>\<open>OuvrtRift\<close> (declared in
  \<^verbatim>\<open>rift.h\<close>, not among the sources) that \<^verbatim>\<open>rift.c\<close> writes. The arrays of
  \<^verbatim>\<open>rift->leds\<close> are functions of the index. The positions and directions are kept as
  the integers of the report, before the scaling to floating point; a blink pattern is
  kept as the 32-bit value that the decoder computes, which is below \<open>2 ^ 10\<close>.
  \<open>fifo\<close> lists the samples handed to \<^verbatim>\<open>debug_imu_fifo_in\<close>, in order, and
  \<open>registered\<close> tells whether \<^verbatim>\<open>ouvrt_tracker_register_leds\<close> was called.
\<close>

record rift_private =
  report_rate :: int
  report_interval :: int
  flicker :: bool
  last_sample_timestamp :: u32

record rift_leds =
  positions :: "nat \<Rightarrow> u32 \<times> u32 \<times> u32"
  directions :: "nat \<Rightarrow> u16 \<times> u16 \<times> u16"
  patterns :: "nat \<Rightarrow> u32"
  leds_num :: int

text \<open>
  What \<^verbatim>\<open>rift_decode_sensor_message\<close> hands to \<^verbatim>\<open>debug_imu_fifo_in\<close>: the fields of
  \<^verbatim>\<open>state.sample\<close> as the integers of the message, before the scaling to floating
  point (by \<open>0.01\<close>, \<open>1e-6\<close> and \<open>0.0001\<close>).
\<close>

record rift_imu_state =
  st_temperature :: u16
  st_time :: u32
  st_magnetic_field :: "u16 \<times> u16 \<times> u16"
  st_acceleration :: "u64 \<times> u64 \<times> u64"
  st_angular_velocity :: "u64 \<times> u64 \<times> u64"

record ouvrt_rift =
  priv :: rift_private
  leds :: rift_leds
  imu_position :: "u32 \<times> u32 \<times> u32"
  fifo :: "rift_imu_state list"
  registered :: bool

subsection \<open>rift\_get\_config (lines 42-65)\<close>


subsection \<open>rift\_set\_report\_rate (lines 70-102)\<close>

text \<open>
  The argument \<^verbatim>\<open>report_rate\<close> is an \<^verbatim>\<open>int\<close> and \<^verbatim>\<open>sample_rate\<close> a \<^verbatim>\<open>uint16_t\<close>, compared
  as \<^verbatim>\<open>int\<close>. After the two tests the rate is at least 5 and the operands of both
  divisions are not negative, so C's division is \<open>div\<close>. The quotient minus one is
  stored in the \<^verbatim>\<open>uint8_t\<close> field \<^verbatim>\<open>packet_interval\<close>.
\<close>

definition rift_set_report_rate ::
  "ouvrt_rift \<Rightarrow> rift_channel \<Rightarrow> int \<Rightarrow> (int \<times> ouvrt_rift \<times> rift_channel) option" where
  "rift_set_report_rate rift fd requested =
     (case hid_call fd Get_config of
        None \<Rightarrow> None
      | Some (report, fd1) \<Rightarrow>
          if rp_ret report < 0 then Some (rp_ret report, rift, fd1)
          else
            let sample_rate = uint (rp_sample_rate report);
                rate1 = (if requested > sample_rate then sample_rate else requested);
                rate2 = (if rate1 < 5 then 5 else rate1);
                packet_interval = (word_of_int (sample_rate div rate2 - 1) :: u8)
            in case hid_call fd1 (Send_config packet_interval) of
                 None \<Rightarrow> None
               | Some (sent, fd2) \<Rightarrow>
                   if rp_ret sent < 0 then Some (rp_ret sent, rift, fd2)
                   else Some (0, rift\<lparr>priv := (priv rift)\<lparr>report_rate := rate2,
                                         report_interval := 1000000 div rate2\<rparr>\<rparr>, fd2))"

subsection \<open>rift\_get\_positions (lines 115-172)\<close>



subsection \<open>rift\_get\_led\_patterns (lines 177-246)\<close>

text \<open>
  The conversion of a valid pattern into 10 single-bit values (lines 223-232).
\<close>

definition led_pattern_deinterleave :: "u32 \<Rightarrow> u32" where
  "led_pattern_deinterleave pattern =
     (let p1 = pattern AND 0xaaaaa;
          p2 = p1 OR drop_bit 1 p1;
          p3 = p2 AND 0x66666;
          p4 = p3 OR drop_bit 2 p3;
          p5 = p4 AND 0xe1e1e;
          p6 = p5 OR drop_bit 4 p5;
          p7 = p6 AND 0xe01fe;
          p8 = p7 OR drop_bit 8 p7
      in drop_bit 1 p8 AND 0x3ff)"

text \<open>
  The two tests on a record and the conversion (lines 203-232): \<open>None\<close> stands for the
  \<^verbatim>\<open>return -1\<close> of either test. In \<^verbatim>\<open>(pattern & ~0xaaaaa) != 0x55555\<close> the constant
  \<^verbatim>\<open>0xaaaaa\<close> is an \<^verbatim>\<open>int\<close>; its complement, converted to the 32 unsigned bits of
  \<^verbatim>\<open>pattern\<close>, is the complement of the 32-bit word.
\<close>

definition led_pattern_decode :: "u8 \<Rightarrow> u32 \<Rightarrow> u32 option" where
  "led_pattern_decode pattern_length pattern =
     (if pattern_length \<noteq> 10 then None
      else if pattern AND NOT 0xaaaaa \<noteq> 0x55555 then None
      else Some (led_pattern_deinterleave pattern))"

text \<open>The loop, a recursion over the replies as in \<open>rift_get_positions_loop\<close>.\<close>

fun rift_get_led_patterns_loop ::
  "nat \<Rightarrow> u16 \<Rightarrow> rift_reply \<Rightarrow> rift_reply list \<Rightarrow> rift_request list \<Rightarrow> ouvrt_rift \<Rightarrow>
     (int \<times> ouvrt_rift \<times> rift_channel) option" where
  "rift_get_led_patterns_loop i num report rest reqs rift =
     (if rp_index report \<ge> num
      then Some (- 1, rift, \<lparr>replies = rest, requests = reqs\<rparr>)
      else
        case led_pattern_decode (rp_pattern_length report) (rp_pattern report) of
          None \<Rightarrow> Some (- 1, rift, \<lparr>replies = rest, requests = reqs\<rparr>)
        | Some pattern \<Rightarrow>
            let rift1 = rift\<lparr>leds := (leds rift)
                          \<lparr>patterns := (patterns (leds rift))(unat (rp_index report) := pattern)\<rparr>\<rparr>
            in if int i + 1 = uint num
               then Some (0, rift1, \<lparr>replies = rest, requests = reqs\<rparr>)
               else
                 case rest of
                   [] \<Rightarrow> None
                 | r # rs \<Rightarrow>
                     if rp_ret r < 0
                     then Some (rp_ret r, rift1,
                                \<lparr>replies = rs, requests = reqs @ [Get_led_pattern]\<rparr>)
                     else rift_get_led_patterns_loop (i + 1) num r rs
                            (reqs @ [Get_led_pattern]) rift1)"

definition rift_get_led_patterns ::
  "nat \<Rightarrow> ouvrt_rift \<Rightarrow> rift_channel \<Rightarrow> (int \<times> ouvrt_rift \<times> rift_channel) option" where
  "rift_get_led_patterns MAX_LEDS rift fd =
     (case hid_call fd Get_led_pattern of
        None \<Rightarrow> None
      | Some (report, fd1) \<Rightarrow>
          if rp_ret report < 0 then Some (rp_ret report, rift, fd1)
          else if unat (rp_num report) > MAX_LEDS then Some (- 1, rift, fd1)
          else rift_get_led_patterns_loop 0 (rp_num report) report (replies fd1) (requests fd1)
                 rift)"

subsection \<open>rift\_send\_keepalive, rift\_send\_tracking, rift\_send\_display (lines 251-326)\<close>

text \<open>Each returns the return value of its last call and the channel.\<close>

definition rift_send_keepalive :: "rift_channel \<Rightarrow> (int \<times> rift_channel) option" where
  "rift_send_keepalive fd =
     (case hid_call fd Send_keepalive of
        None \<Rightarrow> None
      | Some (r, fd1) \<Rightarrow> Some (rp_ret r, fd1))"



subsection \<open>unpack\_3x21bit (lines 370-377)\<close>

text \<open>
  The three signed 21-bit values of a 64-bit word, as 64-bit two's complement integers;
  the multiplication by \<open>0.0001\<close> into floating point is left out.
\<close>

definition unpack_3x21bit :: "u64 \<Rightarrow> u64 \<times> u64 \<times> u64" where
  "unpack_3x21bit xyz =
     (signed_drop_bit 43 xyz,
      signed_drop_bit 43 (push_bit 21 xyz),
      signed_drop_bit 43 (push_bit 42 xyz))"

subsection \<open>rift\_decode\_sensor\_message (lines 395-471)\<close>

text \<open>
  \<^verbatim>\<open>struct rift_sensor_message\<close> with the fields whose values reach the state or the
  sink; the fields read into locals that are cast to \<^verbatim>\<open>void\<close> are left out, and so is
  the line printed when the time step is unexpected. \<open>sensor_message_size\<close> is
  \<^verbatim>\<open>sizeof(*message)\<close>, which the header \<^verbatim>\<open>rift-hid-reports.h\<close> fixes.
\<close>

record rift_sensor_message =
  sm_num_samples :: u8
  sm_temperature :: u16
  sm_timestamp :: u32
  sm_mag :: "u16 \<times> u16 \<times> u16"
  sm_sample0 :: "u64 \<times> u64"
  sm_sample1 :: "u64 \<times> u64"

definition rift_decode_sensor_message ::
  "nat \<Rightarrow> ouvrt_rift \<Rightarrow> rift_sensor_message \<Rightarrow> nat \<Rightarrow> ouvrt_rift" where
  "rift_decode_sensor_message sensor_message_size rift message len =
     (if len < sensor_message_size then rift
      else
        let state = \<lparr>st_temperature = sm_temperature message, st_time = sm_timestamp message,
                     st_magnetic_field = sm_mag message,
                     st_acceleration = (0, 0, 0), st_angular_velocity = (0, 0, 0)\<rparr>;
            entry = (\<lambda>s. state\<lparr>st_acceleration := unpack_3x21bit (fst s),
                                 st_angular_velocity := unpack_3x21bit (snd s)\<rparr>);
            pushed = (if sm_num_samples message > 1
                      then [entry (sm_sample0 message), entry (sm_sample1 message)]
                      else [entry (sm_sample0 message)])
        in rift\<lparr>priv := (priv rift)\<lparr>last_sample_timestamp := sm_timestamp message\<rparr>,
                 fifo := fifo rift @ pushed\<rparr>)"

subsection \<open>rift\_start (lines 476-526)\<close>


subsection \<open>rift\_thread (lines 531-575)\<close>

text \<open>
  The bits of \<^verbatim>\<open>poll.h\<close> on Linux. \<^verbatim>\<open>events\<close> and \<^verbatim>\<open>revents\<close> are of type \<^verbatim>\<open>short\<close>.
\<close>

definition POLLIN :: u16 where "POLLIN = 0x0001"
definition POLLERR :: u16 where "POLLERR = 0x0008"
definition POLLHUP :: u16 where "POLLHUP = 0x0010"
definition POLLNVAL :: u16 where "POLLNVAL = 0x0020"

text \<open>
  What one round of the loop meets: the value of \<^verbatim>\<open>dev->active\<close> at the head of the
  loop, which the owner of the session clears to stop it; the return value of \<^verbatim>\<open>poll\<close>
  and the \<^verbatim>\<open>revents\<close> it reports; and what \<^verbatim>\<open>read\<close> returns if the round reaches it.
\<close>

record rift_round =
  dev_active :: bool
  poll_ret :: int
  poll_revents :: u16
  poll_read :: "rift_sensor_message hid_read"

record rift_thread_state =
  th_rift :: ouvrt_rift
  th_count :: int
  th_fd :: rift_channel

datatype loop_step = Continue | Break

text \<open>
  The body of the \<^verbatim>\<open>while\<close> loop (lines 544-573). The loop sets \<^verbatim>\<open>fds.events = POLLIN\<close>
  before \<^verbatim>\<open>poll\<close>, and the test before \<^verbatim>\<open>read\<close> is on \<^verbatim>\<open>fds.events\<close>. The return value
  of \<^verbatim>\<open>rift_send_keepalive\<close> is not looked at. The decoder is called with
  \<^verbatim>\<open>sizeof(buf)\<close>, which is 64.
\<close>

definition rift_thread_body ::
  "nat \<Rightarrow> rift_thread_state \<Rightarrow> rift_round \<Rightarrow> (loop_step \<times> rift_thread_state) option" where
  "rift_thread_body sensor_message_size st round =
     (let events = POLLIN; revents = poll_revents round; ret = poll_ret round in
      if ret = - 1 \<or> ret = 0 \<or> th_count st > 9 * report_rate (priv (th_rift st))
      then
        case rift_send_keepalive (th_fd st) of
          None \<Rightarrow> None
        | Some (sent, fd1) \<Rightarrow> Some (Continue, st\<lparr>th_count := 0, th_fd := fd1\<rparr>)
      else if events AND (POLLERR OR POLLHUP OR POLLNVAL) \<noteq> 0 then Some (Break, st)
      else if rd_ret (poll_read round) = - 1 then Some (Continue, st)
      else if rd_ret (poll_read round) < 64 then Some (Continue, st)
      else Some (Continue,
             st\<lparr>th_rift := rift_decode_sensor_message sensor_message_size (th_rift st)
                               (rd_report (poll_read round)) 64,
                th_count := th_count st + 1\<rparr>))"

text \<open>
  The loop over the rounds that the session meets, in order. It ends \<open>Stopped\<close> when
  \<^verbatim>\<open>dev->active\<close> is found cleared and \<open>Broke\<close> at a \<^verbatim>\<open>break\<close>; when the rounds given
  are used up and the loop has not ended, the result is \<open>Running\<close> with the state
  reached.
\<close>

datatype thread_end = Stopped | Broke | Running

fun rift_thread_loop ::
  "nat \<Rightarrow> rift_thread_state \<Rightarrow> rift_round list \<Rightarrow> (thread_end \<times> rift_thread_state) option" where
  "rift_thread_loop sensor_message_size st [] = Some (Running, st)"
| "rift_thread_loop sensor_message_size st (round # rounds) =
     (if \<not> dev_active round then Some (Stopped, st)
      else
        case rift_thread_body sensor_message_size st round of
          None \<Rightarrow> None
        | Some (Break, st1) \<Rightarrow> Some (Broke, st1)
        | Some (Continue, st1) \<Rightarrow> rift_thread_loop sensor_message_size st1 rounds)"

definition rift_thread ::
  "nat \<Rightarrow> ouvrt_rift \<Rightarrow> rift_channel \<Rightarrow> rift_round list \<Rightarrow>
     (thread_end \<times> rift_thread_state) option" where
  "rift_thread sensor_message_size rift fd rounds =
     (case rift_send_keepalive fd of
        None \<Rightarrow> None
      | Some (sent, fd1) \<Rightarrow>
          rift_thread_loop sensor_message_size \<lparr>th_rift = rift, th_count = 0, th_fd = fd1\<rparr> rounds)"

subsection \<open>Vocabulary of the claims about the blink patterns\<close>










section \<open>Concrete inputs\<close>

subsection \<open>Reports of the IMU\<close>

text \<open>
  Three slots holding the counters 6, 7, 5: the samples 5, 6, 7 written round-robin with
  the oldest in slot 2.
\<close>

definition report_675 :: vive_imu_report where
  "report_675 =
     \<lparr>sample0 = \<lparr>s_acc = (1, 2, 3), s_gyro = (4, 5, 6), s_time = 2000, s_seq = 6\<rparr>,
      sample1 = \<lparr>s_acc = (7, 8, 9), s_gyro = (10, 11, 12), s_time = 3000, s_seq = 7\<rparr>,
      sample2 = \<lparr>s_acc = (13, 14, 15), s_gyro = (16, 17, 18), s_time = 1000, s_seq = 5\<rparr>\<rparr>"

text \<open>
  Three new samples 10, 11, 12 whose 32-bit ticks advance by a few hundred and wrap around
  once, between the first and the second: \<open>0xFFFFFF00\<close>, \<open>0x100\<close>, \<open>0x300\<close>.
\<close>

definition report_wrap :: vive_imu_report where
  "report_wrap =
     \<lparr>sample0 = \<lparr>s_acc = (0, 0, 0), s_gyro = (0, 0, 0), s_time = 0xFFFFFF00, s_seq = 10\<rparr>,
      sample1 = \<lparr>s_acc = (0, 0, 0), s_gyro = (0, 0, 0), s_time = 0x100, s_seq = 11\<rparr>,
      sample2 = \<lparr>s_acc = (0, 0, 0), s_gyro = (0, 0, 0), s_time = 0x300, s_seq = 12\<rparr>\<rparr>"

subsection \<open>A radio, a device and messages\<close>

text \<open>
  A choice of values for the constants of the header, to run the model on; a radio as
  \<^verbatim>\<open>rift_radio_init\<close> leaves it, with no sub-device active; a device that answers every
  request at once and with success; a message of the remote with button bits 5, and two
  messages of the left touch controller, one for the trigger channel and one for a
  channel that the decoder does not know.
\<close>

definition rift_consts_example :: rift_hid_consts where
  "rift_consts_example =
     \<lparr>RIFT_RADIO_CONTROL_REPORT_ID = 0x1a, RIFT_RADIO_DATA_REPORT_ID = 0x1b,
      RIFT_RADIO_SERIAL_NUMBER_CONTROL = 0x88, RIFT_RADIO_FIRMWARE_VERSION_CONTROL = 0x82,
      RIFT_RADIO_MESSAGE_ID = 0x0c, RIFT_REMOTE = 1, RIFT_TOUCH_CONTROLLER_LEFT = 2,
      RIFT_TOUCH_CONTROLLER_RIGHT = 3, RIFT_TOUCH_CONTROLLER_ADC_A_X = 4,
      RIFT_TOUCH_CONTROLLER_ADC_B_Y = 2, RIFT_TOUCH_CONTROLLER_ADC_REST = 8,
      RIFT_TOUCH_CONTROLLER_ADC_STICK = 1, RIFT_TOUCH_CONTROLLER_ADC_TRIGGER = 3\<rparr>"

definition device_blank :: rift_wireless_device where
  "device_blank =
     \<lparr>dev_name = [], dev_id = 0, active = False,
      serial = [0, 0, 0, 0, 0, 0, 0, 0, 0, 0, 0, 0, 0, 0],
      firmware_date = [0, 0, 0, 0, 0, 0, 0, 0, 0, 0, 0],
      firmware_version = [0, 0, 0, 0, 0, 0, 0, 0, 0, 0]\<rparr>"

definition touch_blank :: rift_touch_controller where
  "touch_blank =
     \<lparr>touch_base = device_blank, cap_a_x = 0, cap_b_y = 0, cap_rest = 0,
      cap_stick = 0, cap_trigger = 0\<rparr>"

definition radio_fresh :: rift_radio where
  "radio_fresh =
     rift_radio_init rift_consts_example
       \<lparr>remote = \<lparr>remote_base = device_blank, remote_buttons = 0\<rparr>,
        touch0 = touch_blank, touch1 = touch_blank\<rparr>"

definition reply_ok :: radio_reply where
  "reply_ok =
     \<lparr>reply_ret = 64, reply_unknown0 = 0, reply_number = [0x41, 0x42, 0x43, 0],
      reply_date = [0x32, 0x30, 0x31, 0x36, 0], reply_version = [0x31, 0x32, 0]\<rparr>"

definition channel_ready :: radio_channel where
  "channel_ready =
     \<lparr>replies = [reply_ok, reply_ok, reply_ok, reply_ok, reply_ok, reply_ok], requests = []\<rparr>"

definition remote_message :: rift_radio_message where
  "remote_message =
     \<lparr>message_id = 0x0c, device_type = 1, message_remote_buttons = 5,
      touch_adc_channel = 0, touch_adc_value = 0\<rparr>"

definition touch_left_message :: rift_radio_message where
  "touch_left_message =
     \<lparr>message_id = 0x0c, device_type = 2, message_remote_buttons = 0,
      touch_adc_channel = 3, touch_adc_value = 700\<rparr>"

definition touch_left_other :: rift_radio_message where
  "touch_left_other =
     \<lparr>message_id = 0x0c, device_type = 2, message_remote_buttons = 0,
      touch_adc_channel = 0x20, touch_adc_value = 900\<rparr>"

subsection \<open>A controller\<close>

text \<open>
  A choice of values for the constants of \<^verbatim>\<open>vive-hid-reports.h\<close>, to run the model on,
  and a controller with no button held.
\<close>

definition vive_consts_example :: vive_hid_consts where
  "vive_consts_example =
     \<lparr>VIVE_IMU_REPORT_ID = 0x20, VIVE_CONTROLLER_LIGHTHOUSE_PULSE_REPORT_ID = 0x21,
      VIVE_CONTROLLER_BUTTON_REPORT_ID = 0x01,
      VIVE_CONTROLLER_USB_BUTTON_TRIGGER = 0x1, VIVE_CONTROLLER_USB_BUTTON_GRIP = 0x4,
      VIVE_CONTROLLER_USB_BUTTON_MENU = 0x1000, VIVE_CONTROLLER_USB_BUTTON_SYSTEM = 0x2000,
      VIVE_CONTROLLER_USB_BUTTON_THUMB = 0x40000, VIVE_CONTROLLER_USB_BUTTON_TOUCH = 0x100000\<rparr>"

definition controller_idle :: vive_controller_usb where
  "controller_idle = \<lparr>imu = \<lparr>sequence = 0, imu_time = 0\<rparr>, buttons = 0\<rparr>"

subsection \<open>A headset, devices and rounds\<close>

text \<open>
  A headset before \<^verbatim>\<open>rift_start\<close> and one that reports at 500 Hz; a reply that succeeds
  and carries a sample rate of 1000 Hz, a table of one entry and the packed pattern
  \<open>0xddd77\<close>, whose symbols are those of the 10-bit sequence \<open>0x2a5\<close>; devices that
  answer with it, one of them reporting a sample rate of 3 Hz and one a pattern whose
  symbol 0 is \<open>00\<close>; a sensor message; and rounds of the poll loop.
\<close>

definition rift_fresh :: ouvrt_rift where
  "rift_fresh =
     \<lparr>priv = \<lparr>report_rate = 0, report_interval = 0, flicker = False,
              last_sample_timestamp = 0\<rparr>,
      leds = \<lparr>positions = (\<lambda>i. (0, 0, 0)), directions = (\<lambda>i. (0, 0, 0)),
              patterns = (\<lambda>i. 0), leds_num = 0\<rparr>,
      imu_position = (0, 0, 0), fifo = [], registered = False\<rparr>"

definition rift_running :: ouvrt_rift where
  "rift_running =
     rift_fresh\<lparr>priv := \<lparr>report_rate = 500, report_interval = 2000, flicker = False,
                          last_sample_timestamp = 0\<rparr>\<rparr>"

definition rift_reply_ok :: rift_reply where
  "rift_reply_ok =
     \<lparr>rp_ret = 64, rp_sample_rate = 1000, rp_packet_interval = 1, rp_num = 1, rp_index = 0,
      rp_type = 0, rp_pos = (0, 0, 0), rp_dir = (0, 0, 0), rp_pattern_length = 10,
      rp_pattern = 0xddd77\<rparr>"

definition channel_config :: rift_channel where
  "channel_config = \<lparr>replies = [rift_reply_ok, rift_reply_ok], requests = []\<rparr>"

definition channel_slow :: rift_channel where
  "channel_slow =
     \<lparr>replies = [rift_reply_ok\<lparr>rp_sample_rate := 3\<rparr>, rift_reply_ok], requests = []\<rparr>"






definition sensor_message_example :: rift_sensor_message where
  "sensor_message_example =
     \<lparr>sm_num_samples = 1, sm_temperature = 2500, sm_timestamp = 1000, sm_mag = (0, 0, 0),
      sm_sample0 = (0, 0), sm_sample1 = (0, 0)\<rparr>"

definition round_hangup :: rift_round where
  "round_hangup =
     \<lparr>dev_active = True, poll_ret = 1, poll_revents = POLLERR OR POLLHUP,
      poll_read = \<lparr>rd_ret = - 1, rd_id = 0, rd_report = sensor_message_example\<rparr>\<rparr>"

definition round_data :: "u16 \<Rightarrow> u8 \<Rightarrow> rift_round" where
  "round_data revents first_byte =
     \<lparr>dev_active = True, poll_ret = 1, poll_revents = revents,
      poll_read = \<lparr>rd_ret = 64, rd_id = first_byte, rd_report = sensor_message_example\<rparr>\<rparr>"

definition thread_state_example :: rift_thread_state where
  "thread_state_example =
     \<lparr>th_rift = rift_running, th_count = 0, th_fd = \<lparr>replies = [], requests = []\<rparr>\<rparr>"

section \<open>Properties of the Vive IMU decoder\<close>

text \<open>
  Claim C4. For every triple of 8-bit counters that is a rotation of three consecutive
  values \<open>n\<close>, \<open>n + 1\<close>, \<open>n + 2\<close> (mod 256), \<open>oldest_sequence_index\<close> returns the index
  of the slot that holds \<open>n\<close>; and for every triple in which no slot is two behind
  another one, it returns 0.
\<close>

theorem oldest_sequence_index_correct:
  "(rotation_of n a b c \<longrightarrow>
      oldest_sequence_index a b c < 3 \<and> [a, b, c] ! oldest_sequence_index a b c = n) \<and>
   (\<not> some_slot_trails a b c \<longrightarrow> oldest_sequence_index a b c = 0)"
  by (auto simp: rotation_of_def some_slot_trails_def trails_by_two_def
      oldest_sequence_index_def)

theorem oldest_sequence_index_correct_witness:
  "rotation_of 5 6 7 5 \<and> oldest_sequence_index 6 7 5 = 2 \<and> [6, 7, 5 :: u8] ! 2 = 5 \<and>
   \<not> some_slot_trails 1 1 1 \<and> oldest_sequence_index 1 1 1 = 0"
  using oldest_sequence_index_correct [of 5 6 7 5] oldest_sequence_index_correct [of 1 1 1]
  by (simp add: rotation_of_def some_slot_trails_def trails_by_two_def
      oldest_sequence_index_def)

subsection \<open>The walk over the three slots\<close>

lemma decode_loop_3:
  "vive_imu_decode_loop (Suc (Suc (Suc 0))) i l r st =
     vive_imu_decode_sample l (sample_at r ((i + 2) mod 3))
       (vive_imu_decode_sample l (sample_at r ((i + 1) mod 3))
         (vive_imu_decode_sample l (sample_at r i) st))"
proof -
  have "(Suc ((i + 1) mod 3)) mod 3 = (i + 2) mod 3"
    by (simp add: mod_Suc_eq)
  then show ?thesis by simp
qed

lemma decode_sample_trace:
  "map fst (snd (vive_imu_decode_sample l smp st)) =
     map fst (snd st) @ filter (\<lambda>s. \<not> already_seen l s) [s_seq smp]"
  by (simp add: vive_imu_decode_sample_def already_seen_def Let_def)

lemma decode_sample_sequence:
  "sequence (fst (vive_imu_decode_sample l smp st)) =
     last (sequence (fst st) # filter (\<lambda>s. \<not> already_seen l s) [s_seq smp])"
  by (simp add: vive_imu_decode_sample_def already_seen_def Let_def)

lemma decode_sample_entries:
  assumes "\<forall>e \<in> set (snd st). \<exists>i<3. fst e = s_seq (sample_at r i) \<and>
             raw_acc (snd e) = s_acc (sample_at r i) \<and> raw_gyro (snd e) = s_gyro (sample_at r i)"
    and "k < 3"
  shows "\<forall>e \<in> set (snd (vive_imu_decode_sample l (sample_at r k) st)).
           \<exists>i<3. fst e = s_seq (sample_at r i) \<and>
             raw_acc (snd e) = s_acc (sample_at r i) \<and> raw_gyro (snd e) = s_gyro (sample_at r i)"
  using assms by (auto simp: vive_imu_decode_sample_def Let_def)

lemma decode_message_trace:
  "map fst (snd (vive_imu_decode_message im r)) =
     (let i = oldest_sequence_index (s_seq (sample0 r)) (s_seq (sample1 r)) (s_seq (sample2 r))
      in filter (\<lambda>s. \<not> already_seen (sequence im) s)
           [s_seq (sample_at r i), s_seq (sample_at r ((i + 1) mod 3)),
            s_seq (sample_at r ((i + 2) mod 3))])"
  unfolding vive_imu_decode_message_def Let_def decode_loop_3 decode_sample_trace
  by simp

lemma decode_message_entries:
  "\<forall>e \<in> set (snd (vive_imu_decode_message im r)).
     \<exists>i<3. fst e = s_seq (sample_at r i) \<and>
       raw_acc (snd e) = s_acc (sample_at r i) \<and> raw_gyro (snd e) = s_gyro (sample_at r i)"
proof -
  define i where
    "i = oldest_sequence_index (s_seq (sample0 r)) (s_seq (sample1 r)) (s_seq (sample2 r))"
  have i: "i < 3" by (simp add: i_def oldest_sequence_index_def)
  have 0: "\<forall>e \<in> set (snd (im, [] :: imu_trace)). \<exists>i<3. fst e = s_seq (sample_at r i) \<and>
             raw_acc (snd e) = s_acc (sample_at r i) \<and> raw_gyro (snd e) = s_gyro (sample_at r i)"
    by simp
  have m1: "(i + 1) mod 3 < 3" and m2: "(i + 2) mod 3 < 3" by simp_all
  show ?thesis
    unfolding vive_imu_decode_message_def Let_def decode_loop_3 i_def [symmetric]
    by (rule decode_sample_entries
        [OF decode_sample_entries [OF decode_sample_entries [OF 0 i] m1] m2])
qed

lemma decode_message_sequence:
  "sequence (fst (vive_imu_decode_message im r)) =
     last (sequence im # map fst (snd (vive_imu_decode_message im r)))"
  unfolding decode_message_trace
  unfolding vive_imu_decode_message_def Let_def decode_loop_3 decode_sample_sequence
  by (simp add: Let_def)

lemma rotation_index:
  assumes "rotation_of n a b c"
  shows "(a = n \<and> b = n + 1 \<and> c = n + 2 \<and> oldest_sequence_index a b c = 0) \<or>
         (a = n + 2 \<and> b = n \<and> c = n + 1 \<and> oldest_sequence_index a b c = 1) \<or>
         (a = n + 1 \<and> b = n + 2 \<and> c = n \<and> oldest_sequence_index a b c = 2)"
  using assms by (auto simp: rotation_of_def oldest_sequence_index_def)

lemma rotation_slots:
  assumes "rotation_of n (s_seq (sample0 r)) (s_seq (sample1 r)) (s_seq (sample2 r))"
  defines "i \<equiv> oldest_sequence_index (s_seq (sample0 r)) (s_seq (sample1 r))
                 (s_seq (sample2 r))"
  shows "s_seq (sample_at r i) = n"
    and "s_seq (sample_at r ((i + 1) mod 3)) = n + 1"
    and "s_seq (sample_at r ((i + 2) mod 3)) = n + 2"
proof -
  from rotation_index [OF assms(1)]
  have "s_seq (sample_at r i) = n \<and> s_seq (sample_at r ((i + 1) mod 3)) = n + 1 \<and>
        s_seq (sample_at r ((i + 2) mod 3)) = n + 2"
    unfolding i_def [symmetric]
  proof (elim disjE conjE)
    assume "i = 0" "s_seq (sample0 r) = n" "s_seq (sample1 r) = n + 1"
      "s_seq (sample2 r) = n + 2"
    then show ?thesis by (simp add: sample_at_def)
  next
    assume "i = 1" "s_seq (sample0 r) = n + 2" "s_seq (sample1 r) = n"
      "s_seq (sample2 r) = n + 1"
    then show ?thesis by (simp add: sample_at_def)
  next
    assume "i = 2" "s_seq (sample0 r) = n + 1" "s_seq (sample1 r) = n + 2"
      "s_seq (sample2 r) = n"
    then show ?thesis by (simp add: sample_at_def)
  qed
  then show "s_seq (sample_at r i) = n"
    and "s_seq (sample_at r ((i + 1) mod 3)) = n + 1"
    and "s_seq (sample_at r ((i + 2) mod 3)) = n + 2"
    by simp_all
qed

lemma rotation_trace:
  assumes "rotation_of n (s_seq (sample0 r)) (s_seq (sample1 r)) (s_seq (sample2 r))"
  shows "map fst (snd (vive_imu_decode_message im r)) =
           filter (\<lambda>s. \<not> already_seen (sequence im) s) [n, n + 1, n + 2]"
  unfolding decode_message_trace Let_def rotation_slots [OF assms] ..

text \<open>
  Claim C1. For every report whose three slots hold a round-robin triple \<open>n\<close>, \<open>n + 1\<close>,
  \<open>n + 2\<close> (mod 256) and for every last delivered counter, the decoder handles exactly
  the samples whose counter is not the last delivered one nor one of its two
  predecessors, each once and in the order \<open>n\<close>, \<open>n + 1\<close>, \<open>n + 2\<close>; no handled sample
  has a counter in that window; every handled sample carries the readings of the slot
  with its counter; and the stored counter becomes that of the last handled sample.
\<close>

theorem vive_imu_decode_message_delivery:
  assumes "rotation_of n (s_seq (sample0 r)) (s_seq (sample1 r)) (s_seq (sample2 r))"
  shows "map fst (snd (vive_imu_decode_message im r)) =
           filter (\<lambda>s. \<not> already_seen (sequence im) s) [n, n + 1, n + 2] \<and>
         distinct (map fst (snd (vive_imu_decode_message im r))) \<and>
         (\<forall>s \<in> set (map fst (snd (vive_imu_decode_message im r))).
            \<not> already_seen (sequence im) s) \<and>
         (\<forall>e \<in> set (snd (vive_imu_decode_message im r)).
            \<exists>i<3. fst e = s_seq (sample_at r i) \<and>
              raw_acc (snd e) = s_acc (sample_at r i) \<and>
              raw_gyro (snd e) = s_gyro (sample_at r i)) \<and>
         sequence (fst (vive_imu_decode_message im r)) =
           last (sequence im # map fst (snd (vive_imu_decode_message im r)))"
proof (intro conjI)
  show "map fst (snd (vive_imu_decode_message im r)) =
          filter (\<lambda>s. \<not> already_seen (sequence im) s) [n, n + 1, n + 2]"
    by (rule rotation_trace [OF assms])
  show "distinct (map fst (snd (vive_imu_decode_message im r)))"
    unfolding rotation_trace [OF assms] by simp
  show "\<forall>s \<in> set (map fst (snd (vive_imu_decode_message im r))).
          \<not> already_seen (sequence im) s"
    unfolding rotation_trace [OF assms] by simp
  show "\<forall>e \<in> set (snd (vive_imu_decode_message im r)).
          \<exists>i<3. fst e = s_seq (sample_at r i) \<and>
            raw_acc (snd e) = s_acc (sample_at r i) \<and>
            raw_gyro (snd e) = s_gyro (sample_at r i)"
    by (rule decode_message_entries)
  show "sequence (fst (vive_imu_decode_message im r)) =
          last (sequence im # map fst (snd (vive_imu_decode_message im r)))"
    by (rule decode_message_sequence)
qed

theorem vive_imu_decode_message_delivery_witness:
  "rotation_of 5 (s_seq (sample0 report_675)) (s_seq (sample1 report_675))
     (s_seq (sample2 report_675)) \<and>
   map fst (snd (vive_imu_decode_message \<lparr>sequence = 5, imu_time = 1000\<rparr> report_675)) = [6, 7] \<and>
   sequence (fst (vive_imu_decode_message \<lparr>sequence = 5, imu_time = 1000\<rparr> report_675)) = 7"
proof -
  have h: "rotation_of 5 (s_seq (sample0 report_675)) (s_seq (sample1 report_675))
     (s_seq (sample2 report_675))"
    by (simp add: rotation_of_def report_675_def)
  note t = vive_imu_decode_message_delivery [OF h, of "\<lparr>sequence = 5, imu_time = 1000\<rparr>"]
  from t have a:
    "map fst (snd (vive_imu_decode_message \<lparr>sequence = 5, imu_time = 1000\<rparr> report_675)) = [6, 7]"
    by (simp add: already_seen_def)
  from t have
    "sequence (fst (vive_imu_decode_message \<lparr>sequence = 5, imu_time = 1000\<rparr> report_675)) =
       last (sequence \<lparr>sequence = 5, imu_time = 1000\<rparr> #
         map fst (snd (vive_imu_decode_message \<lparr>sequence = 5, imu_time = 1000\<rparr> report_675)))"
    by (elim conjE)
  then have b:
    "sequence (fst (vive_imu_decode_message \<lparr>sequence = 5, imu_time = 1000\<rparr> report_675)) = 7"
    unfolding a by simp
  from h a b show ?thesis by (intro conjI)
qed

subsection \<open>The time base\<close>

text \<open>
  The complement \<^verbatim>\<open>~0xffffffff\<close> is 0, so the upper 32 bits of \<^verbatim>\<open>imu->time\<close> never
  reach \<^verbatim>\<open>raw.time\<close>: the result is the tick, with bit 32 set when the tick is below the
  low half of the stored time.
\<close>

lemma vive_imu_sample_time_eq:
  "vive_imu_sample_time imu_t t =
     (if ucast t < (imu_t AND 0xffffffff) then 0x100000000 else 0) OR ucast t"
  by (simp add: vive_imu_sample_time_def Let_def)

text \<open>
  Claim C2 (the code departs from it). The claim: the 64-bit times form a non-decreasing
  sequence when at most one wrap-around lies between consecutive ticks. On
  \<open>report_wrap\<close>, decoded from the initial state, the three samples get the times
  \<open>0xFFFFFF00\<close>, \<open>0x100000100\<close> and \<open>0x300\<close>: after the wrap-around the time falls back
  below \<open>2 ^ 32\<close>, and the stored time base ends at \<open>0x300\<close>.
\<close>

theorem vive_imu_time_falls_back:
  "map (raw_time \<circ> snd)
     (snd (vive_imu_decode_message \<lparr>sequence = 0, imu_time = 0\<rparr> report_wrap)) =
     [0xFFFFFF00, 0x100000100, 0x300] \<and>
   imu_time (fst (vive_imu_decode_message \<lparr>sequence = 0, imu_time = 0\<rparr> report_wrap)) = 0x300 \<and>
   (0x300 :: u64) < 0x100000100"
  by (simp add: vive_imu_decode_message_def report_wrap_def oldest_sequence_index_def
      sample_at_def vive_imu_decode_sample_def vive_imu_sample_time_def Let_def)

section \<open>Properties of the radio router\<close>

subsection \<open>The touch decoder\<close>

lemma touch_none:
  assumes "touch_adc_channel message \<notin> set (adc_channels K)"
  shows "rift_decode_touch_message K touch message = touch"
  using assms by (simp add: rift_decode_touch_message_def adc_channels_def Let_def)

lemma touch_selected:
  assumes "distinct (adc_channels K)" and "k < 5"
    and "touch_adc_channel message = adc_channels K ! k"
  shows "cap_fields (rift_decode_touch_message K touch message) =
           (cap_fields touch)[k := touch_adc_value message]"
proof -
  from \<open>k < 5\<close> consider "k = 0" | "k = 1" | "k = 2" | "k = 3" | "k = 4" by linarith
  then show ?thesis
    using assms(1,3)
    by cases (auto simp: rift_decode_touch_message_def adc_channels_def cap_fields_def Let_def)
qed

lemma touch_at_most_one:
  "changed_fields (cap_fields touch) (cap_fields (rift_decode_touch_message K touch message)) \<le> 1"
  by (simp add: rift_decode_touch_message_def cap_fields_def changed_fields_def Let_def)

lemma touch_base_kept:
  "touch_base (rift_decode_touch_message K touch message) = touch_base touch"
  by (simp add: rift_decode_touch_message_def Let_def)

text \<open>
  Claim C10. For every message, \<open>rift_decode_touch_message\<close> changes at most one of the
  five capacitive-sense fields; with the five channel constants distinct, as the labels
  of a \<^verbatim>\<open>switch\<close> are, a message whose channel is the \<open>k\<close>-th constant sets the \<open>k\<close>-th
  field to the value of the message and leaves the other four as they were; and a
  message whose channel is none of the five leaves all five as they were.
\<close>

theorem rift_decode_touch_message_frame:
  "changed_fields (cap_fields touch) (cap_fields (rift_decode_touch_message K touch message)) \<le> 1 \<and>
   (\<forall>k<5. distinct (adc_channels K) \<and> touch_adc_channel message = adc_channels K ! k \<longrightarrow>
      cap_fields (rift_decode_touch_message K touch message) =
        (cap_fields touch)[k := touch_adc_value message]) \<and>
   (touch_adc_channel message \<notin> set (adc_channels K) \<longrightarrow>
      cap_fields (rift_decode_touch_message K touch message) = cap_fields touch)"
  using touch_at_most_one [of touch K message] touch_selected [of K _ message touch]
    touch_none [of message K touch]
  by simp

theorem rift_decode_touch_message_frame_witness:
  "distinct (adc_channels rift_consts_example) \<and>
   touch_adc_channel touch_left_message = adc_channels rift_consts_example ! 4 \<and>
   cap_fields (rift_decode_touch_message rift_consts_example touch_blank touch_left_message) =
     [0, 0, 0, 0, 700] \<and>
   touch_adc_channel touch_left_other \<notin> set (adc_channels rift_consts_example) \<and>
   cap_fields (rift_decode_touch_message rift_consts_example touch_blank touch_left_other) =
     [0, 0, 0, 0, 0]"
proof -
  have d: "distinct (adc_channels rift_consts_example)"
    by (simp add: adc_channels_def rift_consts_example_def)
  have c: "touch_adc_channel touch_left_message = adc_channels rift_consts_example ! 4"
    by (simp add: adc_channels_def rift_consts_example_def touch_left_message_def)
  have n: "touch_adc_channel touch_left_other \<notin> set (adc_channels rift_consts_example)"
    by (simp add: adc_channels_def rift_consts_example_def touch_left_other_def)
  from rift_decode_touch_message_frame [of touch_blank rift_consts_example touch_left_message]
  have "\<forall>k<5. distinct (adc_channels rift_consts_example) \<and>
          touch_adc_channel touch_left_message = adc_channels rift_consts_example ! k \<longrightarrow>
          cap_fields (rift_decode_touch_message rift_consts_example touch_blank touch_left_message) =
            (cap_fields touch_blank)[k := touch_adc_value touch_left_message]"
    by (elim conjE)
  with d c have a:
    "cap_fields (rift_decode_touch_message rift_consts_example touch_blank touch_left_message) =
       (cap_fields touch_blank)[4 := touch_adc_value touch_left_message]"
    by simp
  from rift_decode_touch_message_frame [of touch_blank rift_consts_example touch_left_other] n
  have b:
    "cap_fields (rift_decode_touch_message rift_consts_example touch_blank touch_left_other) =
       cap_fields touch_blank"
    by simp
  have f: "cap_fields touch_blank = [0, 0, 0, 0, 0]"
    by (simp add: cap_fields_def touch_blank_def)
  from d c n a b show ?thesis
    unfolding f by (simp add: touch_left_message_def)
qed

subsection \<open>Activation of the sub-devices\<close>

lemma copy_while_numeral:
  "copy_while p (numeral k) [] dst = dst"
  "copy_while p (numeral k) (x # src) dst =
     (if p x then x # copy_while p (pred_numeral k) src (tl dst) else dst)"
  by (simp_all add: numeral_eq_Suc)

lemma rift_decode_radio_message_remote:
  assumes "message_id m = RIFT_RADIO_MESSAGE_ID K" and "device_type m = RIFT_REMOTE K"
  shows "rift_decode_radio_message K radio fd m =
           Some (radio\<lparr>remote := rift_decode_remote_message (remote radio) m\<rparr>, fd)"
  using assms by (simp add: rift_decode_radio_message_def)

lemma rift_decode_remote_message_base:
  "remote_base (rift_decode_remote_message rem m) = remote_base rem"
  by (simp add: rift_decode_remote_message_def Let_def)

lemma rift_radio_activate_active:
  assumes "rift_radio_activate K dev fd = Some (ret, dev', fd')"
  shows "active dev' \<longleftrightarrow> active dev \<or> 0 \<le> ret"
  using assms
  by (auto simp: rift_radio_activate_def rift_radio_get_serial_def
      rift_radio_get_firmware_version_def
      split: option.splits if_splits prod.splits)

lemma rift_radio_transfer_requests:
  assumes "rift_radio_transfer fd a b c = Some (ret, fd')"
  shows "\<exists>rest. requests fd' = requests fd @ Send_radio_control a b c # rest"
proof -
  have w: "rift_radio_transfer_wait rs reqs = Some (ret, fd') \<Longrightarrow>
        \<exists>rest. requests fd' = reqs @ rest" for rs reqs
  proof (induction rs arbitrary: reqs)
    case Nil
    then show ?case by simp
  next
    case (Cons r rs)
    show ?case
    proof (cases "0 \<le> reply_ret r \<and> reply_unknown0 r AND 0x80 \<noteq> 0")
      case True
      with Cons.prems have "rift_radio_transfer_wait rs (reqs @ [Get_radio_control]) = Some (ret, fd')"
        by simp
      from Cons.IH [OF this] show ?thesis by auto
    next
      case False
      with Cons.prems show ?thesis by (auto split: if_splits)
    qed
  qed
  from assms show ?thesis
    by (auto simp: rift_radio_transfer_def hid_call_def split: list.splits if_splits dest!: w)
qed

lemma rift_radio_activate_first_request:
  assumes "rift_radio_activate K dev fd = Some (ret, dev', fd')"
  shows "\<exists>rest. requests fd' =
           requests fd @ Send_radio_control 0x03 (RIFT_RADIO_SERIAL_NUMBER_CONTROL K) (dev_id dev) # rest"
proof -
  have rd: "rift_radio_read K fd0 a b c (RIFT_RADIO_DATA_REPORT_ID K) = Some (r, rep, fd1) \<Longrightarrow>
      \<exists>rest. requests fd1 = requests fd0 @ Send_radio_control a b c # rest" for fd0 a b c r rep fd1
    by (auto simp: rift_radio_read_def hid_call_def split: option.splits if_splits list.splits
        dest!: rift_radio_transfer_requests)
  from assms show ?thesis
    by (auto simp: rift_radio_activate_def rift_radio_get_serial_def
      rift_radio_get_firmware_version_def
      split: option.splits if_splits prod.splits dest!: rd)
qed

text \<open>
  Claim C7 (the code departs from it). The claim: for each of the three targets, the
  first message for a target that is not active triggers the serial-number and
  firmware-version queries before the payload is decoded. On a radio as
  \<^verbatim>\<open>rift_radio_init\<close> leaves it and a device ready to answer, a message of the remote is
  decoded (the button bits are stored) with no request made, and the remote stays
  inactive; the same radio and device, given a message of the left touch controller,
  make the two queries and activate the controller.
\<close>

theorem rift_remote_not_activated:
  "map_option
     (\<lambda>(r, fd). (active (remote_base (remote r)), remote_buttons (remote r), requests fd))
     (rift_decode_radio_message rift_consts_example radio_fresh channel_ready remote_message) =
     Some (False, 5, []) \<and>
   map_option
     (\<lambda>(r, fd). (active (touch_base (touch0 r)), cap_trigger (touch0 r), requests fd))
     (rift_decode_radio_message rift_consts_example radio_fresh channel_ready
        touch_left_message) =
     Some (True, 700,
       [Send_radio_control 3 0x88 2, Get_radio_control, Get_radio_data,
        Send_radio_control 3 0x82 2, Get_radio_control, Get_radio_data])"
  by (simp add: rift_consts_example_def device_blank_def touch_blank_def radio_fresh_def
      reply_ok_def channel_ready_def remote_message_def touch_left_message_def
      rift_radio_init_def rift_decode_radio_message_def touch_activate_decode_def
      rift_radio_activate_def rift_radio_get_serial_def rift_radio_get_firmware_version_def
      rift_radio_read_def rift_radio_transfer_def hid_call_def rift_decode_touch_message_def
      rift_decode_remote_message_def g_ascii_isalnum_def g_ascii_isprint_def Let_def
      copy_while_numeral)

section \<open>Properties of the Vive controller\<close>

subsection \<open>Button edges\<close>

lemma ouvrt_handle_buttons_filter:
  "ouvrt_handle_buttons new old bmap =
     map (edge_event new) (filter (mapped_bit_differs new old) bmap)"
  by (induction bmap) (auto simp: edge_event_def mapped_bit_differs_def)

lemma filter_only_at:
  assumes "k < length xs" and "\<forall>j < length xs. P (xs ! j) \<longleftrightarrow> j = k"
  shows "filter P xs = [xs ! k]"
  using assms
proof (induction xs arbitrary: k)
  case Nil
  then show ?case by simp
next
  case (Cons x xs)
  show ?case
  proof (cases k)
    case 0
    have "\<forall>y \<in> set xs. \<not> P y"
    proof
      fix y assume "y \<in> set xs"
      then obtain j where "j < length xs" "xs ! j = y" by (auto simp: in_set_conv_nth)
      with Cons.prems(2) [rule_format, of "Suc j"] 0 show "\<not> P y" by auto
    qed
    then have "filter P xs = []" by (simp add: filter_empty_conv)
    moreover from Cons.prems(2) [rule_format, of 0] 0 have "P x" by simp
    ultimately show ?thesis using 0 by simp
  next
    case (Suc k')
    from Cons.prems(2) [rule_format, of 0] Suc have "\<not> P x" by simp
    moreover have "filter P xs = [xs ! k']"
    proof (rule Cons.IH)
      show "k' < length xs" using Cons.prems(1) Suc by simp
      show "\<forall>j<length xs. P (xs ! j) = (j = k')"
      proof (intro allI impI)
        fix j assume "j < length xs"
        with Cons.prems(2) [rule_format, of "Suc j"] Suc show "P (xs ! j) = (j = k')" by simp
      qed
    qed
    ultimately show ?thesis using Suc by simp
  qed
qed

lemma ouvrt_handle_buttons_single:
  assumes "only_differs_at new old bmap k"
  shows "ouvrt_handle_buttons new old bmap = [edge_event new (bmap ! k)]"
  using assms unfolding only_differs_at_def ouvrt_handle_buttons_filter
  by (simp add: filter_only_at [where k = k])

text \<open>
  Claim C8. For every decoded button report: if the new bitmask equals the stored one,
  no event is emitted and the stored state is unchanged; if the report carries a nonzero
  battery flag and an all-zero button field, no event is emitted and the stored bitmask
  is unchanged, whatever it was; and a report that is not such a heartbeat and whose
  bitmask differs from the stored one in the bit of exactly one mapping, the \<open>k\<close>-th,
  yields exactly one event, the press or release of that mapping, and stores the new
  bitmask.
\<close>

theorem vive_controller_decode_button_message_edges:
  "(report_buttons report = buttons self \<longrightarrow>
      vive_controller_decode_button_message V self report = (self, [])) \<and>
   (battery report \<noteq> 0 \<and> report_buttons report = 0 \<longrightarrow>
      vive_controller_decode_button_message V self report = (self, [])) \<and>
   (\<not> (battery report \<noteq> 0 \<and> report_buttons report = 0) \<and>
    only_differs_at (report_buttons report) (buttons self) (vive_controller_usb_button_map V) k \<longrightarrow>
      vive_controller_decode_button_message V self report =
        (self\<lparr>buttons := report_buttons report\<rparr>,
         [edge_event (report_buttons report) (vive_controller_usb_button_map V ! k)]))"
proof (intro conjI impI)
  show "vive_controller_decode_button_message V self report = (self, [])"
    if "report_buttons report = buttons self"
    using that by (simp add: vive_controller_decode_button_message_def Let_def)
  show "vive_controller_decode_button_message V self report = (self, [])"
    if "battery report \<noteq> 0 \<and> report_buttons report = 0"
    using that by (simp add: vive_controller_decode_button_message_def Let_def)
  show "vive_controller_decode_button_message V self report =
        (self\<lparr>buttons := report_buttons report\<rparr>,
         [edge_event (report_buttons report) (vive_controller_usb_button_map V ! k)])"
    if h: "\<not> (battery report \<noteq> 0 \<and> report_buttons report = 0) \<and>
      only_differs_at (report_buttons report) (buttons self) (vive_controller_usb_button_map V) k"
  proof -
    from h have o: "only_differs_at (report_buttons report) (buttons self)
        (vive_controller_usb_button_map V) k" by simp
    then have "mapped_bit_differs (report_buttons report) (buttons self)
        (vive_controller_usb_button_map V ! k)"
      by (simp add: only_differs_at_def)
    then have ne: "report_buttons report \<noteq> buttons self"
      by (auto simp: mapped_bit_differs_def)
    from h ne show ?thesis
      by (simp add: vive_controller_decode_button_message_def Let_def
          ouvrt_handle_buttons_single [OF o])
  qed
qed


lemma less_6_cases:
  "(j :: nat) < 6 \<Longrightarrow> j = 0 \<or> j = 1 \<or> j = 2 \<or> j = 3 \<or> j = 4 \<or> j = 5"
  by arith

theorem vive_controller_decode_button_message_edges_witness:
  "vive_controller_decode_button_message vive_consts_example (controller_idle\<lparr>buttons := 1\<rparr>)
     \<lparr>battery = 0, report_buttons = 1\<rparr> = (controller_idle\<lparr>buttons := 1\<rparr>, []) \<and>
   vive_controller_decode_button_message vive_consts_example (controller_idle\<lparr>buttons := 1\<rparr>)
     \<lparr>battery = 1, report_buttons = 0\<rparr> = (controller_idle\<lparr>buttons := 1\<rparr>, []) \<and>
   only_differs_at 1 0 (vive_controller_usb_button_map vive_consts_example) 0 \<and>
   vive_controller_decode_button_message vive_consts_example controller_idle
     \<lparr>battery = 0, report_buttons = 1\<rparr> =
     (controller_idle\<lparr>buttons := 1\<rparr>, [Press OUVRT_BUTTON_TRIGGER])"
proof -
  have o: "only_differs_at 1 0 (vive_controller_usb_button_map vive_consts_example) 0"
    unfolding only_differs_at_def
  proof (intro conjI allI impI)
    show "0 < length (vive_controller_usb_button_map vive_consts_example)"
      by (simp add: vive_controller_usb_button_map_def)
    fix j assume "j < length (vive_controller_usb_button_map vive_consts_example)"
    then have "j < 6" by (simp add: vive_controller_usb_button_map_def)
    from less_6_cases [OF this]
    show "mapped_bit_differs 1 0 (vive_controller_usb_button_map vive_consts_example ! j) =
          (j = 0)"
      by (elim disjE)
        (simp_all add: vive_controller_usb_button_map_def vive_consts_example_def
          mapped_bit_differs_def)
  qed
  have a: "vive_controller_decode_button_message vive_consts_example
      (controller_idle\<lparr>buttons := 1\<rparr>) \<lparr>battery = 0, report_buttons = 1\<rparr> =
      (controller_idle\<lparr>buttons := 1\<rparr>, [])"
    using vive_controller_decode_button_message_edges
      [of "\<lparr>battery = 0, report_buttons = 1\<rparr>" "controller_idle\<lparr>buttons := 1\<rparr>"
        vive_consts_example 0]
    by simp
  have b: "vive_controller_decode_button_message vive_consts_example
      (controller_idle\<lparr>buttons := 1\<rparr>) \<lparr>battery = 1, report_buttons = 0\<rparr> =
      (controller_idle\<lparr>buttons := 1\<rparr>, [])"
    using vive_controller_decode_button_message_edges
      [of "\<lparr>battery = 1, report_buttons = 0\<rparr>" "controller_idle\<lparr>buttons := 1\<rparr>"
        vive_consts_example 0]
    by simp
  have c: "vive_controller_decode_button_message vive_consts_example controller_idle
      \<lparr>battery = 0, report_buttons = 1\<rparr> =
      (controller_idle\<lparr>buttons := 1\<rparr>, [Press OUVRT_BUTTON_TRIGGER])"
    using o vive_controller_decode_button_message_edges
      [of "\<lparr>battery = 0, report_buttons = 1\<rparr>" controller_idle vive_consts_example 0]
    by (simp add: controller_idle_def edge_event_def vive_controller_usb_button_map_def
        vive_consts_example_def)
  from a b o c show ?thesis by (intro conjI)
qed

section \<open>Properties of the Rift headset\<close>

subsection \<open>Blink patterns\<close>



























lemma led_loop_rejects:
  assumes "led_pattern_decode (rp_pattern_length report) (rp_pattern report) = None"
  shows "rift_get_led_patterns_loop i num report rest reqs rift =
           Some (- 1, rift, \<lparr>replies = rest, requests = reqs\<rparr>)"
  using assms by (subst rift_get_led_patterns_loop.simps) simp

lemma get_led_patterns_rejects:
  assumes "replies fd = r # rest" and "0 \<le> rp_ret r"
    and "led_pattern_decode (rp_pattern_length r) (rp_pattern r) = None"
  shows "rift_get_led_patterns MAX_LEDS rift fd =
           Some (- 1, rift, \<lparr>replies = rest, requests = requests fd @ [Get_led_pattern]\<rparr>)"
  using assms led_loop_rejects [OF assms(3)]
  by (simp add: rift_get_led_patterns_def hid_call_def)




















subsection \<open>The report rate\<close>

lemma rift_set_report_rate_ok:
  assumes "replies fd = c # c2 # rest" and "0 \<le> rp_ret c" and "0 \<le> rp_ret c2"
  shows "rift_set_report_rate rift fd r =
           Some (0,
             rift\<lparr>priv := (priv rift)
               \<lparr>report_rate := max 5 (min r (uint (rp_sample_rate c))),
                report_interval := 1000000 div max 5 (min r (uint (rp_sample_rate c)))\<rparr>\<rparr>,
             \<lparr>replies = rest,
              requests = requests fd @
                [Get_config,
                 Send_config (word_of_int
                   (uint (rp_sample_rate c) div max 5 (min r (uint (rp_sample_rate c))) - 1))]\<rparr>)"
proof -
  have m: "(if (if r > s then s else r) < 5 then 5 else (if r > s then s else r)) = max 5 (min r s)"
    for s :: int by (simp add: max_def min_def)
  from assms show ?thesis
    by (simp add: rift_set_report_rate_def hid_call_def Let_def m)
qed

text \<open>
  Claim C9, as amended. When both feature-report calls succeed, \<open>rift_set_report_rate\<close>
  returns 0 and configures the requested rate \<open>r\<close> clamped first from above to the
  sample rate \<open>s\<close> that the device reports and then from below to 5, that is
  \<open>max 5 (min r s)\<close>: 5 when \<open>r < 5\<close> or \<open>s < 5\<close>, \<open>s\<close> when \<open>r > s\<close> and \<open>s \<ge> 5\<close>, and
  \<open>r\<close> when \<open>5 \<le> r \<le> s\<close>.
\<close>

theorem rift_set_report_rate_clamps:
  assumes "replies fd = c # c2 # rest" and "0 \<le> rp_ret c" and "0 \<le> rp_ret c2"
  shows "\<exists>rift' fd'. rift_set_report_rate rift fd r = Some (0, rift', fd') \<and>
           report_rate (priv rift') = max 5 (min r (uint (rp_sample_rate c))) \<and>
           (r < 5 \<or> uint (rp_sample_rate c) < 5 \<longrightarrow> report_rate (priv rift') = 5) \<and>
           (uint (rp_sample_rate c) < r \<and> 5 \<le> uint (rp_sample_rate c) \<longrightarrow>
              report_rate (priv rift') = uint (rp_sample_rate c)) \<and>
           (5 \<le> r \<and> r \<le> uint (rp_sample_rate c) \<longrightarrow> report_rate (priv rift') = r)"
  unfolding rift_set_report_rate_ok [OF assms] by auto


text \<open>
  Claim C9 as amended, at a device that reports 1000 Hz: the requests for 500, 2000 and
  2 Hz configure 500, 1000 and 5 Hz.
\<close>

theorem rift_set_report_rate_clamps_witness:
  "replies channel_config = [rift_reply_ok, rift_reply_ok] \<and> 0 \<le> rp_ret rift_reply_ok \<and>
   uint (rp_sample_rate rift_reply_ok) = 1000 \<and>
   map_option (\<lambda>(ret, rift, fd). (ret, report_rate (priv rift)))
     (rift_set_report_rate rift_fresh channel_config 500) = Some (0, 500) \<and>
   map_option (\<lambda>(ret, rift, fd). (ret, report_rate (priv rift)))
     (rift_set_report_rate rift_fresh channel_config 2000) = Some (0, 1000) \<and>
   map_option (\<lambda>(ret, rift, fd). (ret, report_rate (priv rift)))
     (rift_set_report_rate rift_fresh channel_config 2) = Some (0, 5)"
proof -
  have a: "replies channel_config = [rift_reply_ok, rift_reply_ok]"
    by (simp add: channel_config_def)
  have b: "0 \<le> rp_ret rift_reply_ok" by (simp add: rift_reply_ok_def)
  have s: "uint (rp_sample_rate rift_reply_ok) = 1000" by (simp add: rift_reply_ok_def)
  from rift_set_report_rate_clamps [OF a b b, of rift_fresh 500]
  have 1: "map_option (\<lambda>(ret, rift, fd). (ret, report_rate (priv rift)))
     (rift_set_report_rate rift_fresh channel_config 500) = Some (0, 500)"
    unfolding s by auto
  from rift_set_report_rate_clamps [OF a b b, of rift_fresh 2000]
  have 2: "map_option (\<lambda>(ret, rift, fd). (ret, report_rate (priv rift)))
     (rift_set_report_rate rift_fresh channel_config 2000) = Some (0, 1000)"
    unfolding s by auto
  from rift_set_report_rate_clamps [OF a b b, of rift_fresh 2]
  have 3: "map_option (\<lambda>(ret, rift, fd). (ret, report_rate (priv rift)))
     (rift_set_report_rate rift_fresh channel_config 2) = Some (0, 5)"
    unfolding s by auto
  from a b s 1 2 3 show ?thesis by (intro conjI)
qed

text \<open>
  Claim C9 as stated fails: it gives the configured rate as \<open>s\<close> whenever \<open>r > s\<close>. At a
  device that reports a sample rate of 3 Hz, the request for 500 Hz configures 5 Hz.
\<close>

theorem rift_set_report_rate_below_minimum:
  "uint (rp_sample_rate (hd (replies channel_slow))) = 3 \<and> (3 :: int) < 500 \<and>
   map_option (\<lambda>(ret, rift, fd). (ret, report_rate (priv rift)))
     (rift_set_report_rate rift_fresh channel_slow 500) = Some (0, 5) \<and>
   map_option (\<lambda>(ret, rift, fd). (ret, report_rate (priv rift)))
     (rift_set_report_rate rift_fresh channel_slow 500) \<noteq> Some (0, 3)"
  by (simp add: rift_set_report_rate_def hid_call_def channel_slow_def rift_reply_ok_def
      rift_fresh_def Let_def)

subsection \<open>The poll loop\<close>

lemma rift_thread_body_no_break:
  "rift_thread_body n st round \<noteq> Some (Break, st')"
  by (auto simp: rift_thread_body_def Let_def POLLIN_def POLLERR_def POLLHUP_def POLLNVAL_def
      split: option.splits)

lemma rift_thread_loop_no_break:
  "rift_thread_loop n st rounds \<noteq> Some (Broke, st')"
proof (induction rounds arbitrary: st)
  case Nil
  then show ?case by simp
next
  case (Cons round rounds)
  show ?case
  proof (cases "rift_thread_body n st round")
    case None
    then show ?thesis by simp
  next
    case (Some a)
    obtain step st1 where a: "a = (step, st1)" by (cases a)
    with Some rift_thread_body_no_break [of n st round st1] have "step = Continue"
      by (cases step) auto
    with Some a Cons.IH [of st1] show ?thesis by simp
  qed
qed

text \<open>
  Claim C6 (the code departs from it). The claim: when the wait reports a hangup, an
  error or an invalid handle, the loop exits. The test before \<^verbatim>\<open>read\<close> is on
  \<^verbatim>\<open>fds.events\<close>, which holds \<open>POLLIN\<close>, so no round ends the loop
  (\<open>rift_thread_loop_no_break\<close>). Here the first round reports an error and a hangup
  and its \<^verbatim>\<open>read\<close> fails, the second reports a hangup with data: the loop goes on after
  the first, decodes the message of the second, and is still running.
\<close>

theorem rift_thread_survives_hangup:
  "map_option (\<lambda>(e, st). (e, th_count st, length (fifo (th_rift st)), requests (th_fd st)))
     (rift_thread 64 rift_running \<lparr>replies = [rift_reply_ok], requests = []\<rparr>
        [round_hangup, round_data (POLLIN OR POLLHUP) 0x0b]) =
     Some (Running, 1, 1, [Send_keepalive])"
  by (simp add: rift_thread_def rift_send_keepalive_def hid_call_def rift_thread_body_def
      rift_decode_sensor_message_def round_hangup_def round_data_def rift_running_def
      rift_fresh_def rift_reply_ok_def sensor_message_example_def
      POLLIN_def POLLERR_def POLLHUP_def POLLNVAL_def Let_def)

subsection \<open>The identifier of an input report\<close>

lemma rift_thread_body_ignores_id:
  "rift_thread_body n st (round\<lparr>poll_read := (poll_read round)\<lparr>rd_id := x\<rparr>\<rparr>) =
   rift_thread_body n st round"
  by (simp add: rift_thread_body_def Let_def)

lemma vive_controller_usb_read_imu_rejects:
  assumes "rd_ret rd \<noteq> 52 \<or> rd_id rd \<noteq> VIVE_IMU_REPORT_ID V"
  shows "vive_controller_usb_read_imu V self rd = (self, [])"
  using assms by (auto simp: vive_controller_usb_read_imu_def)

lemma rift_decode_sensor_message_short:
  assumes "len < n"
  shows "rift_decode_sensor_message n rift message len = rift"
  using assms by (simp add: rift_decode_sensor_message_def)

lemma rift_thread_body_short_read:
  assumes "0 < poll_ret round" and "th_count st \<le> 9 * report_rate (priv (th_rift st))"
    and "rd_ret (poll_read round) < 64"
  shows "rift_thread_body n st round = Some (Continue, st)"
  using assms
  by (auto simp: rift_thread_body_def Let_def POLLIN_def POLLERR_def POLLHUP_def POLLNVAL_def)

text \<open>
  Claim C5 (the code departs from it). The claim: a buffer whose first byte is not the
  expected report identifier is rejected with no field read and no state changed. The
  poll loop of the headset rejects a short read (\<open>rift_thread_body_short_read\<close>), as the
  controller's loop rejects a report of another length or identifier
  (\<open>vive_controller_usb_read_imu_rejects\<close>), but it never looks at the first byte
  (\<open>rift_thread_body_ignores_id\<close>): two buffers of 64 bytes that differ in the first
  byte only, \<open>0x0b\<close> and \<open>0x0c\<close>, are both decoded, each storing the time stamp of the
  message and handing a sample on.
\<close>

theorem rift_thread_decodes_any_id:
  "map_option
     (\<lambda>(s, st). (s, last_sample_timestamp (priv (th_rift st)), length (fifo (th_rift st))))
     (rift_thread_body 64 thread_state_example (round_data POLLIN 0x0b)) =
     Some (Continue, 1000, 1) \<and>
   map_option
     (\<lambda>(s, st). (s, last_sample_timestamp (priv (th_rift st)), length (fifo (th_rift st))))
     (rift_thread_body 64 thread_state_example (round_data POLLIN 0x0c)) =
     Some (Continue, 1000, 1)"
  by (simp add: rift_thread_body_def rift_decode_sensor_message_def round_data_def
      thread_state_example_def rift_running_def rift_fresh_def sensor_message_example_def
      POLLIN_def POLLERR_def POLLHUP_def POLLNVAL_def Let_def)

end
